theory Spec2Isabelle
  imports Main "HOL-Library.AList"
begin

section \<open>Data model of \<open>torch/fx/experimental/meta_tracer.py\<close>\<close>

text \<open>
  Function objects are compared by identity in the source (\<open>target in self.orig_fns\<close>,
  \<open>setattr(torch, name, orig)\<close>).  A function object is either a function that exists
  under some name of its own, or the closure \<open>wrapper\<close> that
  \<open>gen_constructor_wrapper\<close> builds around a target.
\<close>

datatype fn = Fn string | Wrapper fn

text \<open>The target of a node-creation request: a name (of a placeholder, a method or a
  module) or a function object.\<close>

datatype target = TStr string | TFn fn

text \<open>
  Python values.  A proxy is an object with identity and mutable attributes, so a value
  only holds a reference to it (an index into the store of proxy objects of the state).
  \<open>VTensor shape\<close> is a meta tensor, \<open>VSize\<close> a \<open>torch.Size\<close>.  Dictionaries carry
  string keys, as keyword dictionaries do.
\<close>

datatype val =
    VNone
  | VBool bool
  | VInt int
  | VStr string
  | VFn fn
  | VTensor "nat list"
  | VSize "nat list"
  | VTuple "val list"
  | VList "val list"
  | VDict "(string \<times> val) list"
  | VSlice val val val
  | VProxy nat

text \<open>Exceptions, as values.  \<open>OtherError\<close> stands for every exception class that the
  file does not name (\<open>TypeError\<close>, \<open>RuntimeError\<close>, ...), with its class name.\<close>

datatype exn =
    AssertionError string
  | AttributeError string
  | NameError string
  | IndexError string
  | OtherError string


text \<open>The three proxy classes: \<open>torch.fx.Proxy\<close>, and this file's \<open>MetaProxy\<close> and
  \<open>MetaAttribute\<close> (a subclass of \<open>MetaProxy\<close>).\<close>

datatype proxy_class = Proxy | MetaProxy | MetaAttribute

text \<open>
  A proxy object.  \<open>p_node\<close> is the graph node behind it (for a \<open>MetaAttribute\<close> the
  field \<open>_node\<close>, \<open>None\<close> until the node is created).  \<open>p_tensor_meta = None\<close> says that
  the attribute \<open>_tensor_meta\<close> does not exist on the object; \<open>Some v\<close> that it holds
  \<open>v\<close> (which may be \<open>VNone\<close>).  \<open>p_root\<close> and \<open>p_attr\<close> are the fields \<open>root\<close> and
  \<open>attr\<close> of a \<open>MetaAttribute\<close>.
\<close>

record proxy_obj =
  p_class :: proxy_class
  p_node :: "nat option"
  p_tensor_meta :: "val option"
  p_root :: nat
  p_attr :: string

text \<open>A graph node, as the underlying tracer records it.\<close>

record node =
  n_kind :: string
  n_target :: target
  n_args :: "val list"
  n_kwargs :: "(string \<times> val) list"
  n_name :: "string option"
  n_type_expr :: "string option"

text \<open>A module of the host model system: its identity, the name of its class, and what
  \<open>mod.parameters()\<close> and \<open>mod.buffers()\<close> enumerate.\<close>

record module =
  m_id :: nat
  m_class_name :: string
  m_parameters :: "nat list"
  m_buffers :: "nat list"

text \<open>The root model: its registered children (\<open>_modules\<close>) and the names of all its
  other attributes (parameters, buffers, instance and class attributes).\<close>

record root_module =
  r_modules :: "(string \<times> module) list"
  r_attrs :: "string list"

text \<open>A warning of \<open>create_proxy\<close>:
  \<open>f'Could not compute metadata for target {target}: {e}'\<close>, kept as its two
  parts.\<close>

datatype warning = CouldNotComputeMetadata target string

text \<open>
  The state: the global namespace \<open>torch\<close>, the one tracer (its graph, its fields
  \<open>meta_args\<close>, \<open>patched_torch_methods\<close>, \<open>orig_fns\<close>, \<open>orig_forward\<close>, \<open>root\<close>,
  \<open>prev_module\<close>, \<open>allow_insert_stateless_mods\<close>), the proxy objects and the
  warnings emitted so far.  A tracer field that is \<open>None\<close> has not been assigned yet.
  Every proxy belongs to this one tracer.
\<close>

record state =
  torch :: "string \<Rightarrow> fn option"
  graph :: "node list"
  proxies :: "proxy_obj list"
  warnings :: "warning list"
  meta_args :: "(string \<times> val) list option"
  patched_torch_methods :: "(string \<times> fn \<times> fn) list option"
  orig_fns :: "fn set option"
  orig_forward :: "fn option"
  root :: root_module
  prev_module :: "string option"
  allow_insert_stateless_mods :: bool

text \<open>
  The external callables.  \<open>call_fn f args kwargs\<close> is \<open>f(*args, **kwargs)\<close>,
  \<open>call_meth obj name args kwargs\<close> is \<open>getattr(obj, name)(*args, **kwargs)\<close>;
  both return a value or raise, and leave the state alone.  \<open>base_trace\<close> is the underlying
  \<open>torch.fx.Tracer.trace\<close>, which may change the state in any way,
  \<open>base_path_of_module\<close> the underlying \<open>torch.fx.Tracer.path_of_module\<close> and
  \<open>base_call_module\<close> the underlying \<open>torch.fx.Tracer.call_module\<close>.
\<close>

record env =
  call_fn :: "fn \<Rightarrow> val list \<Rightarrow> (string \<times> val) list \<Rightarrow> exn + val"
  call_meth :: "val \<Rightarrow> string \<Rightarrow> val list \<Rightarrow> (string \<times> val) list \<Rightarrow> exn + val"
  base_trace :: "root_module \<Rightarrow> val \<Rightarrow> state \<Rightarrow> (exn + val) \<times> state"
  base_path_of_module :: "module \<Rightarrow> state \<Rightarrow> exn + string"
  base_call_module ::
    "module \<Rightarrow> fn \<Rightarrow> val list \<Rightarrow> (string \<times> val) list \<Rightarrow> state \<Rightarrow> (exn + val) \<times> state"

section \<open>Proxy objects\<close>

definition get_proxy :: "state \<Rightarrow> nat \<Rightarrow> proxy_obj option" where
  "get_proxy st r = (if r < length (proxies st) then Some (proxies st ! r) else None)"

text \<open>\<open>hasattr(v, '_tensor_meta')\<close> and \<open>v._tensor_meta\<close> in one: \<open>None\<close> when the
  attribute is absent.\<close>

definition tensor_meta_of :: "state \<Rightarrow> nat \<Rightarrow> val option" where
  "tensor_meta_of st r = (case get_proxy st r of None \<Rightarrow> None | Some p \<Rightarrow> p_tensor_meta p)"

definition isinstance_Proxy :: "val \<Rightarrow> bool" where
  "isinstance_Proxy v = (case v of VProxy _ \<Rightarrow> True | _ \<Rightarrow> False)"

definition isinstance_MetaProxy :: "state \<Rightarrow> nat \<Rightarrow> bool" where
  "isinstance_MetaProxy st r =
     (case get_proxy st r of None \<Rightarrow> False | Some p \<Rightarrow> p_class p \<noteq> Proxy)"

definition type_repr :: "state \<Rightarrow> nat \<Rightarrow> string" where
  "type_repr st r =
     (case get_proxy st r of
        None \<Rightarrow> ''<class 'torch.fx.proxy.Proxy'>''
      | Some p \<Rightarrow>
          (case p_class p of
             Proxy \<Rightarrow> ''<class 'torch.fx.proxy.Proxy'>''
           | MetaProxy \<Rightarrow> ''<class 'torch.fx.experimental.meta_tracer.MetaProxy'>''
           | MetaAttribute \<Rightarrow> ''<class 'torch.fx.experimental.meta_tracer.MetaAttribute'>''))"

text \<open>\<open>MetaProxy.install_tensor_meta\<close>: \<open>self._tensor_meta = tensor_meta\<close>.\<close>

definition install_tensor_meta :: "nat \<Rightarrow> val \<Rightarrow> state \<Rightarrow> state" where
  "install_tensor_meta r tm st =
     (if r < length (proxies st)
      then st\<lparr>proxies := (proxies st)[r := (proxies st ! r)\<lparr>p_tensor_meta := Some tm\<rparr>]\<rparr>
      else st)"

text \<open>\<open>proxys_to_metas\<close>, lines 65 to 70.\<close>

definition proxys_to_metas :: "state \<Rightarrow> val \<Rightarrow> exn + val" where
  "proxys_to_metas st v =
     (case v of
        VProxy r \<Rightarrow>
          if \<not> isinstance_MetaProxy st r
          then Inl (AssertionError (''Expected MetaProxy but got '' @ type_repr st r))
          else (case tensor_meta_of st r of
                  None \<Rightarrow> Inl (AssertionError ''MetaProxy does not have an associated meta'')
                | Some tm \<Rightarrow> Inr tm)
      | _ \<Rightarrow> Inr v)"

section \<open>The deep map over nested arguments\<close>

text \<open>
  Modelled from the spec: \<open>torch.fx.node.map_aggregate\<close>, the "generic deep-map utility
  over nested container arguments" of the underlying tracing system.  It applies \<open>fn\<close>
  to every leaf of \<open>a\<close>, going through tuples, lists, the values of dictionaries and the
  three parts of a slice, from left to right, and rebuilds the containers.  The callback
  may change a state of its own (the \<open>nonlocal proxy\<close> of \<open>check_has_proxy\<close>) and may
  raise, which ends the traversal.
\<close>

fun map_aggregate ::
    "val \<Rightarrow> (val \<Rightarrow> 's \<Rightarrow> (exn + val) \<times> 's) \<Rightarrow> 's \<Rightarrow> (exn + val) \<times> 's"
  and map_aggregate_elems ::
    "val list \<Rightarrow> (val \<Rightarrow> 's \<Rightarrow> (exn + val) \<times> 's) \<Rightarrow> 's \<Rightarrow> (exn + val list) \<times> 's"
  and map_aggregate_items ::
    "(string \<times> val) list \<Rightarrow> (val \<Rightarrow> 's \<Rightarrow> (exn + val) \<times> 's) \<Rightarrow> 's
       \<Rightarrow> (exn + (string \<times> val) list) \<times> 's"
where
  "map_aggregate (VTuple xs) fn s =
     (case map_aggregate_elems xs fn s of
        (Inl e, s') \<Rightarrow> (Inl e, s')
      | (Inr ys, s') \<Rightarrow> (Inr (VTuple ys), s'))"
| "map_aggregate (VList xs) fn s =
     (case map_aggregate_elems xs fn s of
        (Inl e, s') \<Rightarrow> (Inl e, s')
      | (Inr ys, s') \<Rightarrow> (Inr (VList ys), s'))"
| "map_aggregate (VDict kvs) fn s =
     (case map_aggregate_items kvs fn s of
        (Inl e, s') \<Rightarrow> (Inl e, s')
      | (Inr kvs', s') \<Rightarrow> (Inr (VDict kvs'), s'))"
| "map_aggregate (VSlice a b c) fn s =
     (case map_aggregate a fn s of
        (Inl e, s1) \<Rightarrow> (Inl e, s1)
      | (Inr a', s1) \<Rightarrow>
          (case map_aggregate b fn s1 of
             (Inl e, s2) \<Rightarrow> (Inl e, s2)
           | (Inr b', s2) \<Rightarrow>
               (case map_aggregate c fn s2 of
                  (Inl e, s3) \<Rightarrow> (Inl e, s3)
                | (Inr c', s3) \<Rightarrow> (Inr (VSlice a' b' c'), s3))))"
| "map_aggregate v fn s = fn v s"
| "map_aggregate_elems [] fn s = (Inr [], s)"
| "map_aggregate_elems (x # xs) fn s =
     (case map_aggregate x fn s of
        (Inl e, s1) \<Rightarrow> (Inl e, s1)
      | (Inr y, s1) \<Rightarrow>
          (case map_aggregate_elems xs fn s1 of
             (Inl e, s2) \<Rightarrow> (Inl e, s2)
           | (Inr ys, s2) \<Rightarrow> (Inr (y # ys), s2)))"
| "map_aggregate_items [] fn s = (Inr [], s)"
| "map_aggregate_items (kv # kvs) fn s =
     (case map_aggregate (snd kv) fn s of
        (Inl e, s1) \<Rightarrow> (Inl e, s1)
      | (Inr y, s1) \<Rightarrow>
          (case map_aggregate_items kvs fn s1 of
             (Inl e, s2) \<Rightarrow> (Inl e, s2)
           | (Inr kvs', s2) \<Rightarrow> (Inr ((fst kv, y) # kvs'), s2)))"

text \<open>Whether a proxy occurs in a value, at a place that \<open>map_aggregate\<close> visits.\<close>

fun contains_proxy :: "val \<Rightarrow> bool"
  and contains_proxy_elems :: "val list \<Rightarrow> bool"
  and contains_proxy_items :: "(string \<times> val) list \<Rightarrow> bool"
where
  "contains_proxy (VProxy r) = True"
| "contains_proxy (VTuple xs) = contains_proxy_elems xs"
| "contains_proxy (VList xs) = contains_proxy_elems xs"
| "contains_proxy (VDict kvs) = contains_proxy_items kvs"
| "contains_proxy (VSlice a b c) = (contains_proxy a \<or> contains_proxy b \<or> contains_proxy c)"
| "contains_proxy v = False"
| "contains_proxy_elems [] = False"
| "contains_proxy_elems (x # xs) = (contains_proxy x \<or> contains_proxy_elems xs)"
| "contains_proxy_items [] = False"
| "contains_proxy_items (kv # kvs) = (contains_proxy (snd kv) \<or> contains_proxy_items kvs)"

text \<open>\<open>*t\<close> and \<open>**d\<close>: the elements of a tuple and the items of a dictionary.\<close>

definition elems_of :: "val \<Rightarrow> val list" where
  "elems_of v = (case v of VTuple xs \<Rightarrow> xs | VList xs \<Rightarrow> xs | _ \<Rightarrow> [])"

definition items_of :: "val \<Rightarrow> (string \<times> val) list" where
  "items_of v = (case v of VDict kvs \<Rightarrow> kvs | _ \<Rightarrow> [])"

section \<open>The tracer's proxy-creation hook\<close>

text \<open>\<open>MetaTracer.proxy\<close>, lines 144 and 145: \<open>MetaProxy(node, self)\<close>, a new proxy
  object backed by \<open>node\<close>, with no \<open>_tensor_meta\<close> attribute.\<close>

definition MetaTracer_proxy :: "nat \<Rightarrow> state \<Rightarrow> val \<times> state" where
  "MetaTracer_proxy n st =
     (VProxy (length (proxies st)),
      st\<lparr>proxies := proxies st @
         [\<lparr>p_class = MetaProxy, p_node = Some n, p_tensor_meta = None,
           p_root = 0, p_attr = []\<rparr>]\<rparr>)"

text \<open>
  Modelled from the spec: \<open>torch.fx.Tracer.create_proxy\<close>, the "node/graph construction
  primitive" of the underlying tracing system, which "constructs the base symbolic
  node/proxy".  It appends one node with the given kind, target, arguments, name and type
  hint to the graph and returns the proxy that \<open>self.proxy(node)\<close> builds for it.  No
  call of this file passes a \<open>proxy_factory_fn\<close>; the model fixes it to \<open>None\<close>.
\<close>

definition Tracer_create_proxy ::
    "string \<Rightarrow> target \<Rightarrow> val list \<Rightarrow> (string \<times> val) list \<Rightarrow> string option \<Rightarrow> string option
       \<Rightarrow> state \<Rightarrow> val \<times> state" where
  "Tracer_create_proxy kind target args kwargs name type_expr st =
     MetaTracer_proxy (length (graph st))
       (st\<lparr>graph := graph st @
          [\<lparr>n_kind = kind, n_target = target, n_args = args, n_kwargs = kwargs,
            n_name = name, n_type_expr = type_expr\<rparr>]\<rparr>)"

text \<open>\<open>target in self.meta_args\<close> and \<open>self.meta_args[target]\<close>: the keys of the mapping
  are placeholder names.\<close>

definition meta_args_get :: "(string \<times> val) list \<Rightarrow> target \<Rightarrow> val option" where
  "meta_args_get m target = (case target of TStr s \<Rightarrow> map_of m s | TFn _ \<Rightarrow> None)"

text \<open>\<open>target in self.orig_fns\<close>.\<close>

definition in_orig_fns :: "target \<Rightarrow> fn set \<Rightarrow> bool" where
  "in_orig_fns target fns = (case target of TFn f \<Rightarrow> f \<in> fns | TStr _ \<Rightarrow> False)"

text \<open>Lines 84 to 91: the keyword \<open>device\<close> of a patched constructor becomes
  \<open>'meta'\<close>.\<close>

definition force_meta_device ::
    "target \<Rightarrow> fn set \<Rightarrow> (string \<times> val) list \<Rightarrow> (string \<times> val) list" where
  "force_meta_device target fns kwargs =
     (if in_orig_fns target fns \<and> ''device'' \<in> fst ` set kwargs
      then AList.update ''device'' (VStr ''meta'') kwargs
      else kwargs)"

text \<open>Lines 97 to 106: the replay proper.  \<open>Inr None\<close> is the early \<open>return rv\<close> of a
  placeholder, \<open>Inr (Some meta_out)\<close> a replayed result.\<close>

definition replay ::
    "env \<Rightarrow> state \<Rightarrow> string \<Rightarrow> target \<Rightarrow> val list \<Rightarrow> (string \<times> val) list \<Rightarrow> exn + val option" where
  "replay env st kind target args_metas kwargs_metas =
     (if kind = ''call_function'' then
        (case target of
           TFn f \<Rightarrow> map_sum id Some (call_fn env f args_metas kwargs_metas)
         | TStr _ \<Rightarrow> Inl (OtherError ''TypeError''))
      else if kind = ''call_method'' then
        (case args_metas of
           [] \<Rightarrow> Inl (IndexError ''tuple index out of range'')
         | self_meta # rest \<Rightarrow>
             (case target of
                TStr name \<Rightarrow> map_sum id Some (call_meth env self_meta name rest kwargs_metas)
              | TFn _ \<Rightarrow> Inl (OtherError ''TypeError'')))
      else if kind = ''call_module'' then
        (case orig_forward st of
           None \<Rightarrow> Inl (AssertionError [])
         | Some forward \<Rightarrow> map_sum id Some (call_fn env forward args_metas kwargs_metas))
      else if kind \<in> set [''placeholder''] then Inr None
      else Inl (AssertionError (''Unsupported node kind '' @ kind)))"

text \<open>Lines 94 to 110: the body of the \<open>try\<close>.  It raises, or it ends (by the early
  \<open>return rv\<close> or after installing the replayed metadata on \<open>rv\<close>).\<close>

definition create_proxy_try ::
    "env \<Rightarrow> string \<Rightarrow> target \<Rightarrow> val list \<Rightarrow> (string \<times> val) list \<Rightarrow> val \<Rightarrow> state
       \<Rightarrow> (exn + unit) \<times> state" where
  "create_proxy_try env kind target args kwargs rv st =
     (case fst (map_aggregate (VTuple args) (\<lambda>v u. (proxys_to_metas st v, u)) ()) of
        Inl e \<Rightarrow> (Inl e, st)
      | Inr args_metas \<Rightarrow>
     (case fst (map_aggregate (VDict kwargs) (\<lambda>v u. (proxys_to_metas st v, u)) ()) of
        Inl e \<Rightarrow> (Inl e, st)
      | Inr kwargs_metas \<Rightarrow>
     (case replay env st kind target (elems_of args_metas) (items_of kwargs_metas) of
        Inl e \<Rightarrow> (Inl e, st)
      | Inr None \<Rightarrow> (Inr (), st)
      | Inr (Some meta_out) \<Rightarrow>
          (case rv of
             VProxy r \<Rightarrow> (Inr (), install_tensor_meta r meta_out st)
           | _ \<Rightarrow> (Inl (AssertionError ''Dont support composite output yet''), st)))))"

text \<open>Lines 111 to 114: the \<open>except AssertionError\<close> clause around the body of the
  \<open>try\<close>, and the final \<open>return rv\<close>.  Any other exception goes on to the caller.\<close>

definition create_proxy_except ::
    "target \<Rightarrow> val \<Rightarrow> (exn + unit) \<times> state \<Rightarrow> (exn + val) \<times> state" where
  "create_proxy_except target rv outcome =
     (case outcome of
        (Inl e, st2) \<Rightarrow>
          (case e of
             AssertionError msg \<Rightarrow>
               (Inr rv, st2\<lparr>warnings := warnings st2 @ [CouldNotComputeMetadata target msg]\<rparr>)
           | _ \<Rightarrow> (Inl e, st2))
      | (Inr _, st2) \<Rightarrow> (Inr rv, st2))"

text \<open>Lines 84 to 114: what \<open>create_proxy\<close> does with \<open>rv\<close> unless it has returned at
  line 82.\<close>

definition create_proxy_replay ::
    "env \<Rightarrow> string \<Rightarrow> target \<Rightarrow> val list \<Rightarrow> (string \<times> val) list \<Rightarrow> val \<Rightarrow> state
       \<Rightarrow> (exn + val) \<times> state" where
  "create_proxy_replay env kind target args kwargs rv st1 =
     (case orig_fns st1 of
        None \<Rightarrow> (Inl (AttributeError ''orig_fns''), st1)
      | Some fns \<Rightarrow>
          create_proxy_except target rv
            (create_proxy_try env kind target args (force_meta_device target fns kwargs) rv st1))"

text \<open>Line 80: \<open>kind == 'placeholder' and target in self.meta_args\<close>, with the value of
  \<open>self.meta_args[target]\<close> when it holds.\<close>

definition placeholder_meta :: "state \<Rightarrow> string \<Rightarrow> target \<Rightarrow> exn + val option" where
  "placeholder_meta st1 kind target =
     (if kind = ''placeholder''
      then (case meta_args st1 of
              None \<Rightarrow> Inl (AttributeError ''meta_args'')
            | Some m \<Rightarrow> Inr (meta_args_get m target))
      else Inr None)"

text \<open>\<open>MetaTracer.create_proxy\<close>, lines 77 to 114.\<close>

definition MetaTracer_create_proxy ::
    "env \<Rightarrow> string \<Rightarrow> target \<Rightarrow> val list \<Rightarrow> (string \<times> val) list \<Rightarrow> string option
       \<Rightarrow> string option \<Rightarrow> state \<Rightarrow> (exn + val) \<times> state" where
  "MetaTracer_create_proxy env kind target args kwargs name type_expr st =
     (case Tracer_create_proxy kind target args kwargs name type_expr st of (rv, st1) \<Rightarrow>
      (case placeholder_meta st1 kind target of
         Inl e \<Rightarrow> (Inl e, st1)
       | Inr (Some tm) \<Rightarrow>
           (case rv of
              VProxy r \<Rightarrow> (Inr rv, install_tensor_meta r tm st1)
            | _ \<Rightarrow> (Inl (AttributeError ''install_tensor_meta''), st1))
       | Inr None \<Rightarrow> create_proxy_replay env kind target args kwargs rv st1))"

text \<open>\<open>MetaTracer.call_module\<close>, lines 116 to 118.\<close>

definition MetaTracer_call_module ::
    "env \<Rightarrow> module \<Rightarrow> fn \<Rightarrow> val list \<Rightarrow> (string \<times> val) list \<Rightarrow> state
       \<Rightarrow> (exn + val) \<times> state" where
  "MetaTracer_call_module env m forward args kwargs st =
     base_call_module env m forward args kwargs (st\<lparr>orig_forward := Some forward\<rparr>)"

section \<open>The constructor wrapper\<close>



text \<open>\<open>gen_constructor_wrapper\<close>, lines 8 to 23: the pair of the wrapper and the
  target.\<close>

definition gen_constructor_wrapper :: "fn \<Rightarrow> fn \<times> fn" where
  "gen_constructor_wrapper target = (Wrapper target, target)"


section \<open>\<open>MetaProxy\<close> and \<open>MetaAttribute\<close>\<close>

text \<open>The truth value of the argument \<open>dim\<close> (\<open>None\<close> or an integer) in \<open>if dim\<close>.\<close>

definition truthy :: "int option \<Rightarrow> bool" where
  "truthy dim = (case dim of None \<Rightarrow> False | Some d \<Rightarrow> d \<noteq> 0)"

definition dim_val :: "int option \<Rightarrow> val" where
  "dim_val dim = (case dim of None \<Rightarrow> VNone | Some d \<Rightarrow> VInt d)"

text \<open>\<open>MetaProxy.size\<close>, lines 29 to 32.\<close>

definition MetaProxy_size :: "env \<Rightarrow> nat \<Rightarrow> int option \<Rightarrow> state \<Rightarrow> (exn + val) \<times> state" where
  "MetaProxy_size env self dim st =
     (if tensor_meta_of st self \<noteq> None \<and> tensor_meta_of st self \<noteq> Some VNone
      then (call_meth env (the (tensor_meta_of st self)) ''size''
              (if truthy dim then [dim_val dim] else []) [], st)
      else MetaTracer_create_proxy env ''call_method'' (TStr ''size'')
             (if truthy dim then [VProxy self, dim_val dim] else [VProxy self]) []
             None None st)"

text \<open>\<open>MetaProxy.dim\<close>, lines 34 to 37.\<close>

definition MetaProxy_dim :: "env \<Rightarrow> nat \<Rightarrow> state \<Rightarrow> (exn + val) \<times> state" where
  "MetaProxy_dim env self st =
     (if tensor_meta_of st self \<noteq> None \<and> tensor_meta_of st self \<noteq> Some VNone
      then (call_meth env (the (tensor_meta_of st self)) ''dim'' [] [], st)
      else MetaTracer_create_proxy env ''call_method'' (TStr ''dim'') [VProxy self] []
             None None st)"

text \<open>\<open>MetaAttribute.__init__\<close>, lines 47 to 52: a new object with \<open>root\<close>, \<open>attr\<close> and
  \<open>_node = None\<close>.\<close>

definition MetaAttribute_init :: "nat \<Rightarrow> string \<Rightarrow> state \<Rightarrow> val \<times> state" where
  "MetaAttribute_init root_ref attr st =
     (VProxy (length (proxies st)),
      st\<lparr>proxies := proxies st @
         [\<lparr>p_class = MetaAttribute, p_node = None, p_tensor_meta = None,
           p_root = root_ref, p_attr = attr\<rparr>]\<rparr>)"

text \<open>\<open>MetaProxy.__getattr__\<close>, lines 39 to 44.  Python calls it only for a name that the
  ordinary lookup did not find, so for \<open>_tensor_meta\<close> the \<open>__getattribute__\<close> raises.\<close>

definition MetaProxy_getattr :: "nat \<Rightarrow> string \<Rightarrow> state \<Rightarrow> (exn + val) \<times> state" where
  "MetaProxy_getattr self k st =
     (if k = ''_tensor_meta'' then (Inl (AttributeError k), st)
      else (case MetaAttribute_init self k st of (a, st1) \<Rightarrow> (Inr a, st1)))"

text \<open>\<open>v.node\<close> of a proxy whose node exists, and the assignment \<open>self._node = n\<close>.\<close>

definition node_of :: "state \<Rightarrow> val \<Rightarrow> nat option" where
  "node_of st v =
     (case v of
        VProxy r \<Rightarrow> (case get_proxy st r of None \<Rightarrow> None | Some q \<Rightarrow> p_node q)
      | _ \<Rightarrow> None)"

definition set_node :: "nat \<Rightarrow> nat \<Rightarrow> state \<Rightarrow> state" where
  "set_node r n st =
     (if r < length (proxies st)
      then st\<lparr>proxies := (proxies st)[r := (proxies st ! r)\<lparr>p_node := Some n\<rparr>]\<rparr>
      else st)"

text \<open>The property \<open>MetaAttribute.node\<close>, lines 54 to 60.  The result is the reference of
  the node in the graph.\<close>

definition MetaAttribute_node :: "env \<Rightarrow> nat \<Rightarrow> state \<Rightarrow> (exn + nat) \<times> state" where
  "MetaAttribute_node env self st =
     (case get_proxy st self of
        None \<Rightarrow> (Inl (AttributeError ''_node''), st)
      | Some p \<Rightarrow>
          (case p_node p of
             Some n \<Rightarrow> (Inr n, st)
           | None \<Rightarrow>
               (case MetaTracer_create_proxy env ''call_function'' (TFn (Fn ''getattr''))
                       [VProxy (p_root p), VStr (p_attr p)] [] None None st of
                  (Inl e, st1) \<Rightarrow> (Inl e, st1)
                | (Inr rv, st1) \<Rightarrow>
                    (case node_of st1 rv of
                       None \<Rightarrow> (Inl (AttributeError ''node''), st1)
                     | Some n \<Rightarrow> (Inr n, set_node self n st1)))))"

text \<open>\<open>MetaAttribute.__call__\<close>, lines 62 and 63.\<close>

definition MetaAttribute_call ::
    "env \<Rightarrow> nat \<Rightarrow> val list \<Rightarrow> (string \<times> val) list \<Rightarrow> state \<Rightarrow> (exn + val) \<times> state" where
  "MetaAttribute_call env self args kwargs st =
     (case get_proxy st self of
        None \<Rightarrow> (Inl (AttributeError ''attr''), st)
      | Some p \<Rightarrow>
          MetaTracer_create_proxy env ''call_method'' (TStr (p_attr p))
            (VProxy (p_root p) # args) kwargs None None st)"

section \<open>Inserting a module that was not declared as a submodule\<close>

text \<open>The decimal digits of \<open>f"{idx}"\<close> for an index, which is never negative.\<close>

definition digit_char :: "nat \<Rightarrow> char" where
  "digit_char d = ''0123456789'' ! d"

fun str_of_nat :: "nat \<Rightarrow> string" where
  "str_of_nat n =
     (if n < 10 then [digit_char n] else str_of_nat (n div 10) @ [digit_char (n mod 10)])"

declare str_of_nat.simps [simp del]

text \<open>\<open>str.lower\<close> on the letters of ASCII, of which class names are made.\<close>

definition lower_char :: "char \<Rightarrow> char" where
  "lower_char c =
     (case map_of (zip ''ABCDEFGHIJKLMNOPQRSTUVWXYZ'' ''abcdefghijklmnopqrstuvwxyz'') c of
        None \<Rightarrow> c
      | Some l \<Rightarrow> l)"

definition lower :: "string \<Rightarrow> string" where
  "lower s = map lower_char s"

text \<open>\<open>f"{mod_name}_{idx}"\<close>.\<close>

definition make_path :: "string \<Rightarrow> nat \<Rightarrow> string" where
  "make_path mod_name idx = mod_name @ ''_'' @ str_of_nat idx"

text \<open>\<open>hasattr(self.root, path)\<close>: the name of a child or of any other attribute.\<close>

definition hasattr_root :: "root_module \<Rightarrow> string \<Rightarrow> bool" where
  "hasattr_root rt path = (path \<in> fst ` set (r_modules rt) \<or> path \<in> set (r_attrs rt))"

lemma str_of_nat_not_Nil: "str_of_nat n \<noteq> []"
  by (subst str_of_nat.simps) simp

lemma digit_char_inj: "a < 10 \<Longrightarrow> b < 10 \<Longrightarrow> digit_char a = digit_char b \<Longrightarrow> a = b"
proof -
  assume a: "a < 10" and b: "b < 10" and eq: "digit_char a = digit_char b"
  have d: "distinct ''0123456789''" by simp
  have "a < length ''0123456789''" "b < length ''0123456789''" using a b by simp_all
  with d eq show "a = b" unfolding digit_char_def by (simp only: nth_eq_iff_index_eq)
qed

lemma str_of_nat_inj: "str_of_nat n = str_of_nat m \<Longrightarrow> n = m"
proof (induction n arbitrary: m rule: str_of_nat.induct)
  case (1 n)
  show ?case
  proof (cases "n < 10")
    case n: True
    show ?thesis
    proof (cases "m < 10")
      case True
      with n "1.prems" show ?thesis
        by (simp add: str_of_nat.simps [of n] str_of_nat.simps [of m] digit_char_inj)
    next
      case False
      with n "1.prems" str_of_nat_not_Nil [of "m div 10"] show ?thesis
        by (auto simp: str_of_nat.simps [of n] str_of_nat.simps [of m])
    qed
  next
    case n: False
    show ?thesis
    proof (cases "m < 10")
      case True
      with n "1.prems" str_of_nat_not_Nil [of "n div 10"] show ?thesis
        by (auto simp: str_of_nat.simps [of n] str_of_nat.simps [of m])
    next
      case False
      with n "1.prems" have q: "str_of_nat (n div 10) = str_of_nat (m div 10)"
        and r: "digit_char (n mod 10) = digit_char (m mod 10)"
        by (simp_all add: str_of_nat.simps [of n] str_of_nat.simps [of m])
      from "1.IH" [OF n q] have "n div 10 = m div 10" .
      moreover from r have "n mod 10 = m mod 10" by (intro digit_char_inj) simp_all
      ultimately show ?thesis by (metis div_mult_mod_eq)
    qed
  qed
qed

lemma make_path_inj: "inj (make_path mod_name)"
  by (rule injI) (simp add: make_path_def str_of_nat_inj)

lemma finite_taken_suffixes: "finite {k. hasattr_root rt (make_path mod_name k)}"
proof -
  have "finite (fst ` set (r_modules rt) \<union> set (r_attrs rt))" by simp
  then have "finite (make_path mod_name -` (fst ` set (r_modules rt) \<union> set (r_attrs rt)))"
    by (rule finite_vimageI) (rule make_path_inj)
  moreover have "{k. hasattr_root rt (make_path mod_name k)}
      = make_path mod_name -` (fst ` set (r_modules rt) \<union> set (r_attrs rt))"
    by (auto simp: hasattr_root_def)
  ultimately show ?thesis by simp
qed

text \<open>The loop of lines 127 to 129, from the values of \<open>path\<close> and \<open>idx\<close> at its head to
  the value of \<open>path\<close> when it ends.\<close>

function insert_module_loop :: "root_module \<Rightarrow> string \<Rightarrow> string \<Rightarrow> nat \<Rightarrow> string" where
  "insert_module_loop rt mod_name path idx =
     (if hasattr_root rt path
      then insert_module_loop rt mod_name (make_path mod_name idx) (idx + 1)
      else path)"
  by pat_completeness auto
termination
proof (relation "measure (\<lambda>(rt, mod_name, path, idx).
         (if hasattr_root rt path then 1 else 0)
         + card {k. idx \<le> k \<and> hasattr_root rt (make_path mod_name k)})")
  show "wf (measure (\<lambda>(rt, mod_name, path, idx).
         (if hasattr_root rt path then 1 else 0)
         + card {k. idx \<le> k \<and> hasattr_root rt (make_path mod_name k)}))"
    by simp
next
  fix rt :: root_module and mod_name path :: string and idx :: nat
  assume h: "hasattr_root rt path"
  let ?P = "\<lambda>k. hasattr_root rt (make_path mod_name k)"
  have fin: "finite {k. idx + 1 \<le> k \<and> ?P k}"
    by (rule finite_subset [OF _ finite_taken_suffixes [of rt mod_name]]) auto
  have split: "{k. idx \<le> k \<and> ?P k}
      = (if ?P idx then {idx} else {}) \<union> {k. idx + 1 \<le> k \<and> ?P k}"
    by (auto simp: Suc_le_eq le_less)
  have "(if ?P idx then 1 else 0) + card {k. idx + 1 \<le> k \<and> ?P k}
      = card {k. idx \<le> k \<and> ?P k}"
    using fin by (subst split) simp
  with h show "((rt, mod_name, make_path mod_name idx, idx + 1), (rt, mod_name, path, idx))
      \<in> measure (\<lambda>(rt, mod_name, path, idx).
         (if hasattr_root rt path then 1 else 0)
         + card {k. idx \<le> k \<and> hasattr_root rt (make_path mod_name k)})"
    by simp
qed

declare insert_module_loop.simps [simp del]

text \<open>
  Modelled from the spec: \<open>torch.nn.Module.add_module\<close>, the "module registration (add
  named child)" of the host model system: \<open>name\<close> becomes a child of the module.
\<close>

definition add_module :: "string \<Rightarrow> module \<Rightarrow> root_module \<Rightarrow> root_module" where
  "add_module name m rt = rt\<lparr>r_modules := AList.update name m (r_modules rt)\<rparr>"

text \<open>\<open>MetaTracer._insert_module_as_submodule\<close>, lines 120 to 132.\<close>

definition insert_module_as_submodule :: "module \<Rightarrow> state \<Rightarrow> string \<times> state" where
  "insert_module_as_submodule m st =
     (let idx = 0;
          mod_name = lower (m_class_name m);
          path = make_path mod_name idx;
          path = insert_module_loop (root st) mod_name path idx
      in (path, st\<lparr>root := add_module path m (root st)\<rparr>))"

text \<open>\<open>MetaTracer.path_of_module\<close>, lines 134 to 142.\<close>

definition MetaTracer_path_of_module :: "env \<Rightarrow> module \<Rightarrow> state \<Rightarrow> (exn + string) \<times> state" where
  "MetaTracer_path_of_module env m st =
     (case base_path_of_module env m st of
        Inr p \<Rightarrow> (Inr p, st)
      | Inl e \<Rightarrow>
          (case e of
             NameError msg \<Rightarrow>
               if allow_insert_stateless_mods st \<and> length (m_parameters m) = 0
                  \<and> length (m_buffers m) = 0
               then (case insert_module_as_submodule m st of
                       (path, st1) \<Rightarrow> (Inr path, st1\<lparr>prev_module := Some path\<rparr>))
               else (Inl e, st)
           | _ \<Rightarrow> (Inl e, st)))"

section \<open>The entry point\<close>

definition TORCH_METHODS_TO_PATCH :: "string list" where
  "TORCH_METHODS_TO_PATCH = [''arange'', ''zeros'', ''ones'', ''full_like'', ''eye'']"

text \<open>The dictionary comprehension of lines 151 to 153; \<open>getattr(torch, target)\<close> raises
  for a name that \<open>torch\<close> does not have.\<close>

fun gen_patches :: "(string \<Rightarrow> fn option) \<Rightarrow> string list \<Rightarrow> exn + (string \<times> fn \<times> fn) list" where
  "gen_patches t [] = Inr []"
| "gen_patches t (target # targets) =
     (case t target of
        None \<Rightarrow> Inl (AttributeError target)
      | Some f \<Rightarrow>
          (case gen_patches t targets of
             Inl e \<Rightarrow> Inl e
           | Inr ps \<Rightarrow> Inr ((target, gen_constructor_wrapper f) # ps)))"

text \<open>The loop of lines 156 to 158.\<close>

fun install_patches :: "(string \<times> fn \<times> fn) list \<Rightarrow> state \<Rightarrow> state" where
  "install_patches [] st = st"
| "install_patches ((name, wrapper_fn, orig) # ps) st =
     install_patches ps
       (st\<lparr>torch := (torch st)(name \<mapsto> wrapper_fn),
           orig_fns := Some (insert orig (case orig_fns st of None \<Rightarrow> {} | Some fns \<Rightarrow> fns))\<rparr>)"

text \<open>The loop of lines 163 and 164.\<close>

fun restore_patches :: "(string \<times> fn \<times> fn) list \<Rightarrow> state \<Rightarrow> state" where
  "restore_patches [] st = st"
| "restore_patches ((name, wrapper_fn, orig) # ps) st =
     restore_patches ps (st\<lparr>torch := (torch st)(name \<mapsto> orig)\<rparr>)"

text \<open>\<open>MetaTracer.trace\<close>, lines 147 to 164.  The \<open>finally\<close> block reads
  \<open>self.patched_torch_methods\<close> again, after the underlying trace.\<close>

definition MetaTracer_trace ::
    "env \<Rightarrow> root_module \<Rightarrow> val \<Rightarrow> val \<Rightarrow> state \<Rightarrow> (exn + val) \<times> state" where
  "MetaTracer_trace env rt meta_args_arg concrete_args st =
     (case meta_args_arg of
        VDict m \<Rightarrow>
          (let st1 = st\<lparr>meta_args := Some m\<rparr> in
           case gen_patches (torch st1) TORCH_METHODS_TO_PATCH of
             Inl e \<Rightarrow> (Inl e, st1)
           | Inr ps \<Rightarrow>
               (let st2 = st1\<lparr>patched_torch_methods := Some ps\<rparr>;
                    st3 = st2\<lparr>orig_fns := Some {}\<rparr>;
                    st4 = install_patches ps st3
                in case base_trace env rt concrete_args st4 of
                     (res, st5) \<Rightarrow>
                       (case patched_torch_methods st5 of
                          None \<Rightarrow> (Inl (AttributeError ''patched_torch_methods''), st5)
                        | Some ps' \<Rightarrow> (res, restore_patches ps' st5))))
      | _ \<Rightarrow> (Inl (AssertionError []), st))"

section \<open>Concrete inputs\<close>

text \<open>
  A small instance of the external callables, for evaluating the definitions: meta
  tensors answer \<open>size\<close> and \<open>dim\<close>, \<open>zeros\<close> and \<open>ones\<close> take a tuple of
  dimensions, \<open>full_like\<close> takes a meta tensor and a number, \<open>add\<close> takes two meta
  tensors of one shape,
  \<open>matmul\<close> two matrices whose inner dimensions agree, \<open>getattr\<close> knows the attribute
  \<open>shape\<close> of a meta tensor,
  the underlying trace raises, and a module's path is its name among the root's children.
\<close>

definition tensor_method :: "val \<Rightarrow> string \<Rightarrow> val list \<Rightarrow> (string \<times> val) list \<Rightarrow> exn + val" where
  "tensor_method obj name args kwargs =
     (case obj of
        VTensor shape \<Rightarrow>
          if name = ''size'' then
            (case args of
               [] \<Rightarrow> Inr (VSize shape)
             | [VInt d] \<Rightarrow>
                 (let i = (if d < 0 then d + int (length shape) else d)
                  in if 0 \<le> i \<and> i < int (length shape) then Inr (VInt (int (shape ! nat i)))
                     else Inl (IndexError ''Dimension out of range''))
             | _ \<Rightarrow> Inl (OtherError ''TypeError''))
          else if name = ''dim'' then Inr (VInt (int (length shape)))
          else Inl (AttributeError name)
      | _ \<Rightarrow> Inl (AttributeError name))"

fun shape_of :: "val list \<Rightarrow> nat list option" where
  "shape_of [] = Some []"
| "shape_of (VInt d # ds) =
     (if d < 0 then None else map_option ((#) (nat d)) (shape_of ds))"
| "shape_of (v # ds) = None"

definition tensor_function :: "fn \<Rightarrow> val list \<Rightarrow> (string \<times> val) list \<Rightarrow> exn + val" where
  "tensor_function f args kwargs =
     (case args of
        [VTuple dims] \<Rightarrow>
          if f = Fn ''zeros'' \<or> f = Fn ''ones'' then
            (case shape_of dims of
               None \<Rightarrow> Inl (OtherError ''TypeError'')
             | Some shape \<Rightarrow> Inr (VTensor shape))
          else Inl (OtherError ''TypeError'')
      | [VTensor a, VTensor b] \<Rightarrow>
          if f = Fn ''add'' then
            (if a = b then Inr (VTensor a) else Inl (OtherError ''RuntimeError''))
          else if f = Fn ''matmul'' then
            (case (a, b) of
               ([n, k], [k', m]) \<Rightarrow>
                 if k = k' then Inr (VTensor [n, m]) else Inl (OtherError ''RuntimeError'')
             | _ \<Rightarrow> Inl (OtherError ''RuntimeError''))
          else Inl (OtherError ''TypeError'')
      | [VTensor a, VInt fill_value] \<Rightarrow>
          if f = Fn ''full_like'' then Inr (VTensor a) else Inl (OtherError ''TypeError'')
      | [VTensor a, VStr name] \<Rightarrow>
          if f = Fn ''getattr'' then
            (if name = ''shape'' then Inr (VSize a) else Inl (AttributeError name))
          else Inl (OtherError ''TypeError'')
      | _ \<Rightarrow> Inl (OtherError ''TypeError''))"

definition meta_env :: env where
  "meta_env =
     \<lparr>call_fn = tensor_function,
      call_meth = tensor_method,
      base_trace = (\<lambda>rt concrete_args st. (Inl (OtherError ''RuntimeError''), st)),
      base_path_of_module = (\<lambda>m st.
        case find (\<lambda>kv. m_id (snd kv) = m_id m) (r_modules (root st)) of
          None \<Rightarrow> Inl (NameError ''module is not installed as a submodule'')
        | Some kv \<Rightarrow> Inr (fst kv)),
      base_call_module = (\<lambda>m forward args kwargs st.
        (Inl (OtherError ''RuntimeError''), st))\<rparr>"

text \<open>A tracer in the middle of a trace: the constructors are patched, the placeholder
  \<open>x\<close> carries metadata, the placeholder \<open>y\<close> carries none, and the third proxy is a
  plain \<open>torch.fx.Proxy\<close>.\<close>

definition tracing :: state where
  "tracing =
     \<lparr>torch = map_of [(''arange'', Wrapper (Fn ''arange'')), (''zeros'', Wrapper (Fn ''zeros'')),
                       (''ones'', Wrapper (Fn ''ones'')), (''full_like'', Wrapper (Fn ''full_like'')),
                       (''eye'', Wrapper (Fn ''eye''))],
      graph = [\<lparr>n_kind = ''placeholder'', n_target = TStr ''x'', n_args = [], n_kwargs = [],
                 n_name = None, n_type_expr = None\<rparr>,
               \<lparr>n_kind = ''placeholder'', n_target = TStr ''y'', n_args = [], n_kwargs = [],
                 n_name = None, n_type_expr = None\<rparr>],
      proxies = [\<lparr>p_class = MetaProxy, p_node = Some 0, p_tensor_meta = Some (VTensor [2, 3]),
                   p_root = 0, p_attr = []\<rparr>,
                 \<lparr>p_class = MetaProxy, p_node = Some 1, p_tensor_meta = None,
                   p_root = 0, p_attr = []\<rparr>,
                 \<lparr>p_class = Proxy, p_node = Some 1, p_tensor_meta = None,
                   p_root = 0, p_attr = []\<rparr>],
      warnings = [],
      meta_args = Some [(''x'', VTensor [2, 3]), (''z'', VTensor [4])],
      patched_torch_methods = None,
      orig_fns = Some {Fn ''arange'', Fn ''zeros'', Fn ''ones'', Fn ''full_like'', Fn ''eye''},
      orig_forward = None,
      root = \<lparr>r_modules = [], r_attrs = []\<rparr>,
      prev_module = None,
      allow_insert_stateless_mods = True\<rparr>"

text \<open>The state \<open>tracing\<close> after the attribute accesses \<open>x.shape\<close> and \<open>x.view\<close>, which
  make the proxies \<open>3\<close> and \<open>4\<close>.\<close>

definition tracing_attrs :: state where
  "tracing_attrs = snd (MetaAttribute_init 0 ''view'' (snd (MetaAttribute_init 0 ''shape'' tracing)))"

text \<open>A root with a child \<open>relu_0\<close> and an attribute \<open>relu_1\<close>, a \<open>ReLU\<close> module made
  inside \<open>forward\<close>, and a \<open>Conv2d\<close> module with two parameters.\<close>

definition relu_mod :: module where
  "relu_mod = \<lparr>m_id = 7, m_class_name = ''ReLU'', m_parameters = [], m_buffers = []\<rparr>"

definition conv_mod :: module where
  "conv_mod = \<lparr>m_id = 8, m_class_name = ''Conv2d'', m_parameters = [0, 1], m_buffers = []\<rparr>"

definition tracing_root :: state where
  "tracing_root =
     tracing\<lparr>root :=
       \<lparr>r_modules = [(''linear'', \<lparr>m_id = 1, m_class_name = ''Linear'', m_parameters = [2, 3],
                                   m_buffers = []\<rparr>),
                     (''relu_0'', \<lparr>m_id = 2, m_class_name = ''ReLU'', m_parameters = [],
                                   m_buffers = []\<rparr>)],
        r_attrs = [''training'', ''forward'', ''relu_1'']\<rparr>\<rparr>"

text \<open>A state before any trace: \<open>torch\<close> holds the original constructors and the tracer
  has no fields yet.\<close>

definition before_trace :: state where
  "before_trace =
     \<lparr>torch = map_of [(''arange'', Fn ''arange''), (''zeros'', Fn ''zeros''),
                       (''ones'', Fn ''ones''), (''full_like'', Fn ''full_like''),
                       (''eye'', Fn ''eye'')],
      graph = [], proxies = [], warnings = [],
      meta_args = None, patched_torch_methods = None, orig_fns = None, orig_forward = None,
      root = \<lparr>r_modules = [], r_attrs = []\<rparr>,
      prev_module = None,
      allow_insert_stateless_mods = True\<rparr>"

text \<open>An underlying trace that returns, after the traced program has rebound
  \<open>torch.zeros\<close>.\<close>

definition rebinding_env :: env where
  "rebinding_env =
     meta_env\<lparr>base_trace :=
       (\<lambda>rt concrete_args st. (Inr VNone, st\<lparr>torch := (torch st)(''zeros'' \<mapsto> Fn ''other'')\<rparr>))\<rparr>"

section \<open>Facts about the proxy-creation hook\<close>

lemma create_proxy_try_raises_state:
  "fst (create_proxy_try env kind target args kwargs rv st) = Inl e \<Longrightarrow>
   snd (create_proxy_try env kind target args kwargs rv st) = st"
  by (auto simp: create_proxy_try_def split: sum.splits option.splits val.splits)

lemma create_proxy_try_graph:
  "graph (snd (create_proxy_try env kind target args kwargs rv st)) = graph st"
  by (auto simp: create_proxy_try_def install_tensor_meta_def
      split: sum.splits option.splits val.splits)

lemma create_proxy_try_warnings:
  "warnings (snd (create_proxy_try env kind target args kwargs rv st)) = warnings st"
  by (auto simp: create_proxy_try_def install_tensor_meta_def
      split: sum.splits option.splits val.splits)

lemma create_proxy_except_graph:
  "graph (snd (create_proxy_except target rv outcome)) = graph (snd outcome)"
  by (cases outcome) (auto simp: create_proxy_except_def split: sum.splits exn.splits)

lemma create_proxy_replay_graph:
  "graph (snd (create_proxy_replay env kind target args kwargs rv st1)) = graph st1"
  by (simp add: create_proxy_replay_def create_proxy_except_graph create_proxy_try_graph
      split: option.splits)

lemma Tracer_create_proxy_eq:
  "Tracer_create_proxy kind target args kwargs nm ty st =
     (VProxy (length (proxies st)),
      st\<lparr>graph := graph st @
            [\<lparr>n_kind = kind, n_target = target, n_args = args, n_kwargs = kwargs,
              n_name = nm, n_type_expr = ty\<rparr>],
         proxies := proxies st @
            [\<lparr>p_class = MetaProxy, p_node = Some (length (graph st)), p_tensor_meta = None,
              p_root = 0, p_attr = []\<rparr>]\<rparr>)"
  by (simp add: Tracer_create_proxy_def MetaTracer_proxy_def)

lemma create_proxy_graph:
  "graph (snd (MetaTracer_create_proxy env kind target args kwargs nm ty st)) =
     graph st @ [\<lparr>n_kind = kind, n_target = target, n_args = args, n_kwargs = kwargs,
                  n_name = nm, n_type_expr = ty\<rparr>]"
  unfolding MetaTracer_create_proxy_def Tracer_create_proxy_eq
  by (simp add: create_proxy_replay_graph install_tensor_meta_def split: sum.splits option.splits)


section \<open>Metadata extraction\<close>

text \<open>
  Claim C9.  \<open>proxys_to_metas\<close> returns a value that is not a proxy unchanged.  Given a
  proxy, it raises an \<open>AssertionError\<close> that names the type when the proxy is not a
  \<open>MetaProxy\<close>, raises an \<open>AssertionError\<close> that reports the missing metadata when
  the proxy has no \<open>_tensor_meta\<close>, and returns the installed metadata otherwise.
\<close>

theorem proxys_to_metas_cases:
  "(\<not> isinstance_Proxy v \<longrightarrow> proxys_to_metas st v = Inr v) \<and>
   (\<forall>r. v = VProxy r \<longrightarrow>
      (\<not> isinstance_MetaProxy st r \<longrightarrow>
         proxys_to_metas st v =
           Inl (AssertionError (''Expected MetaProxy but got '' @ type_repr st r))) \<and>
      (isinstance_MetaProxy st r \<and> tensor_meta_of st r = None \<longrightarrow>
         proxys_to_metas st v =
           Inl (AssertionError ''MetaProxy does not have an associated meta'')) \<and>
      (\<forall>tm. isinstance_MetaProxy st r \<and> tensor_meta_of st r = Some tm \<longrightarrow>
         proxys_to_metas st v = Inr tm))"
  by (cases v) (simp_all add: proxys_to_metas_def isinstance_Proxy_def)

theorem proxys_to_metas_cases_witness:
  "proxys_to_metas tracing (VInt 7) = Inr (VInt 7) \<and>
   proxys_to_metas tracing (VStr ''cpu'') = Inr (VStr ''cpu'') \<and>
   proxys_to_metas tracing (VProxy 2) =
     Inl (AssertionError ''Expected MetaProxy but got <class 'torch.fx.proxy.Proxy'>'') \<and>
   proxys_to_metas tracing (VProxy 1) =
     Inl (AssertionError ''MetaProxy does not have an associated meta'') \<and>
   proxys_to_metas tracing (VProxy 0) = Inr (VTensor [2, 3])"
  using proxys_to_metas_cases [of "VInt 7" tracing]
        proxys_to_metas_cases [of "VStr ''cpu''" tracing]
        proxys_to_metas_cases [of "VProxy 2" tracing]
        proxys_to_metas_cases [of "VProxy 1" tracing]
        proxys_to_metas_cases [of "VProxy 0" tracing]
  by (simp add: isinstance_Proxy_def isinstance_MetaProxy_def tensor_meta_of_def type_repr_def
      get_proxy_def tracing_def)

section \<open>Placeholders named in the metadata input mapping\<close>

text \<open>
  Claim C1.  For a request of kind \<open>placeholder\<close> whose target is a key of
  \<open>meta_args\<close>, \<open>create_proxy\<close> returns the new proxy \<open>rv\<close> with exactly the mapped
  value as its \<open>_tensor_meta\<close>.  The result is the state after the underlying
  \<open>create_proxy\<close> with that value installed: no external callable is consulted (the
  right-hand side does not mention \<open>env\<close>), and no warning is added.
\<close>

theorem create_proxy_placeholder_meta:
  assumes "meta_args st = Some m" and "map_of m name = Some tm"
  shows "MetaTracer_create_proxy env ''placeholder'' (TStr name) args kwargs nm ty st =
           (Inr (VProxy (length (proxies st))),
            install_tensor_meta (length (proxies st)) tm
              (snd (Tracer_create_proxy ''placeholder'' (TStr name) args kwargs nm ty st)))
         \<and> tensor_meta_of
             (snd (MetaTracer_create_proxy env ''placeholder'' (TStr name) args kwargs nm ty st))
             (length (proxies st)) = Some tm
         \<and> warnings (snd (MetaTracer_create_proxy env ''placeholder'' (TStr name) args kwargs nm ty st))
             = warnings st"
  using assms
  by (simp add: MetaTracer_create_proxy_def Tracer_create_proxy_eq placeholder_meta_def
      meta_args_get_def install_tensor_meta_def tensor_meta_of_def get_proxy_def)

theorem create_proxy_placeholder_meta_witness:
  "MetaTracer_create_proxy meta_env ''placeholder'' (TStr ''z'') [] [] None None tracing =
     (Inr (VProxy 3),
      install_tensor_meta 3 (VTensor [4])
        (snd (Tracer_create_proxy ''placeholder'' (TStr ''z'') [] [] None None tracing)))
   \<and> tensor_meta_of
       (snd (MetaTracer_create_proxy meta_env ''placeholder'' (TStr ''z'') [] [] None None tracing)) 3
       = Some (VTensor [4])"
proof -
  have a: "meta_args tracing = Some [(''x'', VTensor [2, 3]), (''z'', VTensor [4])]"
    by (simp add: tracing_def)
  have b: "map_of [(''x'', VTensor [2, 3]), (''z'', VTensor [4])] ''z'' = Some (VTensor [4])"
    by simp
  have l: "length (proxies tracing) = 3" by (simp add: tracing_def)
  show ?thesis
    using create_proxy_placeholder_meta [OF a b, of meta_env "[]" "[]" None None, unfolded l]
    by blast
qed

section \<open>Facts about the deep map\<close>

text \<open>Metadata extraction leaves a value without proxies as it is, raises nothing but
  assertion errors, and the scan of \<open>check_has_proxy\<close> ends with a proxy exactly when one
  occurs.\<close>

lemma extract_no_proxy:
  "\<not> contains_proxy v \<Longrightarrow>
     map_aggregate v (\<lambda>v u. (proxys_to_metas st v, u)) (s::unit) = (Inr v, s)"
  "\<not> contains_proxy_elems xs \<Longrightarrow>
     map_aggregate_elems xs (\<lambda>v u. (proxys_to_metas st v, u)) s = (Inr xs, s)"
  "\<not> contains_proxy_items kvs \<Longrightarrow>
     map_aggregate_items kvs (\<lambda>v u. (proxys_to_metas st v, u)) s = (Inr kvs, s)"
  by (induction v "\<lambda>v (u::unit). (proxys_to_metas st v, u)" s
        and xs "\<lambda>v (u::unit). (proxys_to_metas st v, u)" s
        and kvs "\<lambda>v (u::unit). (proxys_to_metas st v, u)" s
      rule: map_aggregate_map_aggregate_elems_map_aggregate_items.induct)
     (simp_all add: proxys_to_metas_def)

lemma extract_raises_assertion:
  "fst (map_aggregate v (\<lambda>v u. (proxys_to_metas st v, u)) (s::unit)) = Inl e \<Longrightarrow> \<exists>msg. e = AssertionError msg"
  "fst (map_aggregate_elems xs (\<lambda>v u. (proxys_to_metas st v, u)) s) = Inl e \<Longrightarrow> \<exists>msg. e = AssertionError msg"
  "fst (map_aggregate_items kvs (\<lambda>v u. (proxys_to_metas st v, u)) s) = Inl e \<Longrightarrow> \<exists>msg. e = AssertionError msg"
  by (induction v "\<lambda>v (u::unit). (proxys_to_metas st v, u)" s
        and xs "\<lambda>v (u::unit). (proxys_to_metas st v, u)" s
        and kvs "\<lambda>v (u::unit). (proxys_to_metas st v, u)" s
      rule: map_aggregate_map_aggregate_elems_map_aggregate_items.induct)
     (auto simp: proxys_to_metas_def split: prod.splits sum.splits if_splits option.splits)



section \<open>Assertion failures during metadata replay\<close>

lemma create_proxy_not_at_line_82:
  "placeholder_meta (snd (Tracer_create_proxy kind target args kwargs nm ty st)) kind target
     = placeholder_meta st kind target"
  by (simp add: placeholder_meta_def Tracer_create_proxy_eq)

lemma create_proxy_replays:
  assumes "orig_fns st = Some fns" and "placeholder_meta st kind target = Inr None"
  shows "MetaTracer_create_proxy env kind target args kwargs nm ty st =
           create_proxy_except target (VProxy (length (proxies st)))
             (create_proxy_try env kind target args (force_meta_device target fns kwargs)
                (VProxy (length (proxies st)))
                (snd (Tracer_create_proxy kind target args kwargs nm ty st)))"
proof -
  have "placeholder_meta
      (st\<lparr>graph := graph st @
            [\<lparr>n_kind = kind, n_target = target, n_args = args, n_kwargs = kwargs,
              n_name = nm, n_type_expr = ty\<rparr>],
         proxies := proxies st @
            [\<lparr>p_class = MetaProxy, p_node = Some (length (graph st)), p_tensor_meta = None,
              p_root = 0, p_attr = []\<rparr>]\<rparr>) kind target = Inr None"
    using assms(2) by (simp add: placeholder_meta_def split: if_splits)
  then show ?thesis
    unfolding MetaTracer_create_proxy_def Tracer_create_proxy_eq
    by (simp add: create_proxy_replay_def assms(1))
qed

lemma new_proxy_has_no_meta:
  "tensor_meta_of (snd (Tracer_create_proxy kind target args kwargs nm ty st))
     (length (proxies st)) = None"
  by (simp add: Tracer_create_proxy_eq tensor_meta_of_def get_proxy_def)

text \<open>
  Claim C2.  When \<open>create_proxy\<close> does not return at line 82 and the body of its \<open>try\<close>
  raises an \<open>AssertionError\<close> with message \<open>msg\<close>, then \<open>create_proxy\<close> returns the
  proxy \<open>rv\<close> of the underlying \<open>create_proxy\<close>, the state is the one after the
  underlying \<open>create_proxy\<close> with one warning added that names the target and \<open>msg\<close>,
  and \<open>rv\<close> has no \<open>_tensor_meta\<close>.  The lemmas \<open>unsupported_kind_raises\<close> and
  \<open>missing_meta_raises\<close> after it show two of the causes: a node kind that the replay does
  not support, and an input proxy without metadata.
\<close>

theorem create_proxy_assertion_caught:
  assumes "orig_fns st = Some fns"
    and "placeholder_meta st kind target = Inr None"
    and "fst (create_proxy_try env kind target args (force_meta_device target fns kwargs)
               (VProxy (length (proxies st)))
               (snd (Tracer_create_proxy kind target args kwargs nm ty st)))
         = Inl (AssertionError msg)"
  shows "MetaTracer_create_proxy env kind target args kwargs nm ty st =
           (Inr (VProxy (length (proxies st))),
            (snd (Tracer_create_proxy kind target args kwargs nm ty st))
              \<lparr>warnings := warnings st @ [CouldNotComputeMetadata target msg]\<rparr>)
         \<and> tensor_meta_of
             (snd (MetaTracer_create_proxy env kind target args kwargs nm ty st))
             (length (proxies st)) = None"
proof -
  let ?st1 = "snd (Tracer_create_proxy kind target args kwargs nm ty st)"
  let ?body = "create_proxy_try env kind target args (force_meta_device target fns kwargs)
                (VProxy (length (proxies st))) ?st1"
  have "snd ?body = ?st1" using assms(3) by (rule create_proxy_try_raises_state)
  with assms(3) have t: "?body = (Inl (AssertionError msg), ?st1)"
    by (simp add: prod_eq_iff)
  have w: "warnings ?st1 = warnings st" by (simp add: Tracer_create_proxy_eq)
  have eq: "MetaTracer_create_proxy env kind target args kwargs nm ty st =
      (Inr (VProxy (length (proxies st))),
       ?st1\<lparr>warnings := warnings st @ [CouldNotComputeMetadata target msg]\<rparr>)"
    by (simp add: create_proxy_replays [OF assms(1,2)] t create_proxy_except_def w)
  have "tensor_meta_of
      (?st1\<lparr>warnings := warnings st @ [CouldNotComputeMetadata target msg]\<rparr>)
      (length (proxies st)) = None"
    by (simp add: Tracer_create_proxy_eq tensor_meta_of_def get_proxy_def)
  with eq show ?thesis by simp
qed

lemma unsupported_kind_raises:
  assumes "kind \<noteq> ''call_function''" and "kind \<noteq> ''call_method''"
    and "kind \<noteq> ''call_module''" and "kind \<noteq> ''placeholder''"
  shows "\<exists>msg. fst (create_proxy_try env kind target args kwargs rv st) = Inl (AssertionError msg)"
proof (cases "fst (map_aggregate (VTuple args) (\<lambda>v u. (proxys_to_metas st v, u)) ())")
  case (Inl e)
  with extract_raises_assertion(1) [OF Inl] show ?thesis
    by (auto simp: create_proxy_try_def)
next
  case a: (Inr am)
  show ?thesis
  proof (cases "fst (map_aggregate (VDict kwargs) (\<lambda>v u. (proxys_to_metas st v, u)) ())")
    case (Inl e)
    with a extract_raises_assertion(1) [OF Inl] show ?thesis
      by (auto simp: create_proxy_try_def)
  next
    case (Inr km)
    with a assms show ?thesis
      by (simp add: create_proxy_try_def replay_def)
  qed
qed

lemma missing_meta_raises:
  assumes "isinstance_MetaProxy st r" and "tensor_meta_of st r = None"
  shows "fst (create_proxy_try env kind target (VProxy r # args) kwargs rv st)
         = Inl (AssertionError ''MetaProxy does not have an associated meta'')"
  using assms by (simp add: create_proxy_try_def proxys_to_metas_def)

theorem create_proxy_assertion_caught_witness:
  "MetaTracer_create_proxy meta_env ''get_attr'' (TStr ''weight'') [] [] None None tracing =
     (Inr (VProxy 3),
      (snd (Tracer_create_proxy ''get_attr'' (TStr ''weight'') [] [] None None tracing))
        \<lparr>warnings := [CouldNotComputeMetadata (TStr ''weight'') ''Unsupported node kind get_attr'']\<rparr>)
   \<and> tensor_meta_of
       (snd (MetaTracer_create_proxy meta_env ''get_attr'' (TStr ''weight'') [] [] None None tracing))
       3 = None"
proof -
  have a: "orig_fns tracing = Some {Fn ''arange'', Fn ''zeros'', Fn ''ones'', Fn ''full_like'', Fn ''eye''}"
    by (simp add: tracing_def)
  have b: "placeholder_meta tracing ''get_attr'' (TStr ''weight'') = Inr None"
    by (simp add: placeholder_meta_def)
  have l: "length (proxies tracing) = 3" by (simp add: tracing_def)
  have w: "warnings tracing = []" by (simp add: tracing_def)
  have c: "fst (create_proxy_try meta_env ''get_attr'' (TStr ''weight'') []
             (force_meta_device (TStr ''weight'')
                {Fn ''arange'', Fn ''zeros'', Fn ''ones'', Fn ''full_like'', Fn ''eye''} [])
             (VProxy (length (proxies tracing)))
             (snd (Tracer_create_proxy ''get_attr'' (TStr ''weight'') [] [] None None tracing)))
           = Inl (AssertionError ''Unsupported node kind get_attr'')"
    by (simp add: create_proxy_try_def force_meta_device_def in_orig_fns_def replay_def)
  show ?thesis
    using create_proxy_assertion_caught [OF a b c, unfolded l w append_Nil] by blast
qed

section \<open>Other exceptions during metadata replay\<close>

text \<open>
  Claim C3, as stated, fails: \<open>create_proxy\<close> catches \<open>AssertionError\<close> only.  Replaying
  \<open>matmul\<close> on the metadata of two proxies of shape \<open>[2, 3]\<close> raises a
  \<open>RuntimeError\<close>, and \<open>create_proxy\<close> raises it in turn instead of returning \<open>rv\<close>.
\<close>

theorem create_proxy_runtime_error_propagates:
  "fst (MetaTracer_create_proxy meta_env ''call_function'' (TFn (Fn ''matmul''))
          [VProxy 0, VProxy 0] [] None None tracing)
     = Inl (OtherError ''RuntimeError'')"
  by (simp add: MetaTracer_create_proxy_def Tracer_create_proxy_eq placeholder_meta_def
      create_proxy_replay_def create_proxy_except_def create_proxy_try_def
      force_meta_device_def in_orig_fns_def replay_def proxys_to_metas_def
      isinstance_MetaProxy_def tensor_meta_of_def get_proxy_def elems_of_def items_of_def
      meta_env_def tensor_function_def tracing_def)

text \<open>
  Claim C3, amended.  When \<open>create_proxy\<close> does not return at line 82, the metadata of
  the arguments is extracted and the replay raises \<open>e\<close>: if \<open>e\<close> is an
  \<open>AssertionError\<close>, \<open>create_proxy\<close> returns the proxy \<open>rv\<close> without metadata and adds
  a warning; any other exception goes on to the caller of \<open>create_proxy\<close>.  In both cases
  the node stays in the graph.
\<close>

theorem create_proxy_replay_exception:
  assumes "orig_fns st = Some fns"
    and "placeholder_meta st kind target = Inr None"
    and "fst (map_aggregate (VTuple args)
            (\<lambda>v u. (proxys_to_metas (snd (Tracer_create_proxy kind target args kwargs nm ty st)) v, u))
            ()) = Inr args_metas"
    and "fst (map_aggregate (VDict (force_meta_device target fns kwargs))
            (\<lambda>v u. (proxys_to_metas (snd (Tracer_create_proxy kind target args kwargs nm ty st)) v, u))
            ()) = Inr kwargs_metas"
    and "replay env (snd (Tracer_create_proxy kind target args kwargs nm ty st)) kind target
           (elems_of args_metas) (items_of kwargs_metas) = Inl e"
  shows "MetaTracer_create_proxy env kind target args kwargs nm ty st =
           (case e of
              AssertionError msg \<Rightarrow>
                (Inr (VProxy (length (proxies st))),
                 (snd (Tracer_create_proxy kind target args kwargs nm ty st))
                   \<lparr>warnings := warnings st @ [CouldNotComputeMetadata target msg]\<rparr>)
            | _ \<Rightarrow> (Inl e, snd (Tracer_create_proxy kind target args kwargs nm ty st)))"
proof -
  let ?st1 = "snd (Tracer_create_proxy kind target args kwargs nm ty st)"
  have t: "create_proxy_try env kind target args (force_meta_device target fns kwargs)
             (VProxy (length (proxies st))) ?st1 = (Inl e, ?st1)"
    using assms(3,4,5) by (simp add: create_proxy_try_def)
  have w: "warnings ?st1 = warnings st" by (simp add: Tracer_create_proxy_eq)
  show ?thesis
    by (simp add: create_proxy_replays [OF assms(1,2)] t create_proxy_except_def w
        split: exn.splits)
qed


theorem create_proxy_replay_exception_witness:
  "MetaTracer_create_proxy meta_env ''call_function'' (TFn (Fn ''matmul''))
      [VProxy 0, VProxy 0] [] None None tracing
     = (Inl (OtherError ''RuntimeError''),
        snd (Tracer_create_proxy ''call_function'' (TFn (Fn ''matmul''))
               [VProxy 0, VProxy 0] [] None None tracing))
   \<and> MetaTracer_create_proxy meta_env ''call_module'' (TStr ''linear'')
      [VProxy 0] [] None None tracing
     = (Inr (VProxy 3),
        (snd (Tracer_create_proxy ''call_module'' (TStr ''linear'') [VProxy 0] [] None None tracing))
          \<lparr>warnings := [CouldNotComputeMetadata (TStr ''linear'') []]\<rparr>)"
proof -
  let ?fns = "{Fn ''arange'', Fn ''zeros'', Fn ''ones'', Fn ''full_like'', Fn ''eye''}"
  have a: "orig_fns tracing = Some ?fns" by (simp add: tracing_def)
  have l: "length (proxies tracing) = 3" by (simp add: tracing_def)
  have w: "warnings tracing = []" by (simp add: tracing_def)
  have k: "force_meta_device t ?fns [] = []" for t by (simp add: force_meta_device_def)
  have x: "proxys_to_metas (snd (Tracer_create_proxy kind t args [] None None tracing)) (VProxy 0)
      = Inr (VTensor [2, 3])" for kind t args
    by (simp add: Tracer_create_proxy_eq proxys_to_metas_def isinstance_MetaProxy_def
        tensor_meta_of_def get_proxy_def tracing_def)
  have b1: "placeholder_meta tracing ''call_function'' (TFn (Fn ''matmul'')) = Inr None"
    by (simp add: placeholder_meta_def)
  have c1: "fst (map_aggregate (VTuple [VProxy 0, VProxy 0])
            (\<lambda>v u. (proxys_to_metas (snd (Tracer_create_proxy ''call_function''
               (TFn (Fn ''matmul'')) [VProxy 0, VProxy 0] [] None None tracing)) v, u)) ())
          = Inr (VTuple [VTensor [2, 3], VTensor [2, 3]])"
    by (simp add: x)
  have d1: "fst (map_aggregate (VDict (force_meta_device (TFn (Fn ''matmul'')) ?fns []))
            (\<lambda>v u. (proxys_to_metas (snd (Tracer_create_proxy ''call_function''
               (TFn (Fn ''matmul'')) [VProxy 0, VProxy 0] [] None None tracing)) v, u)) ())
          = Inr (VDict [])"
    by (simp add: k)
  have e1: "replay meta_env (snd (Tracer_create_proxy ''call_function''
               (TFn (Fn ''matmul'')) [VProxy 0, VProxy 0] [] None None tracing))
             ''call_function'' (TFn (Fn ''matmul''))
             (elems_of (VTuple [VTensor [2, 3], VTensor [2, 3]])) (items_of (VDict []))
          = Inl (OtherError ''RuntimeError'')"
    by (simp add: replay_def elems_of_def items_of_def meta_env_def tensor_function_def)
  have b2: "placeholder_meta tracing ''call_module'' (TStr ''linear'') = Inr None"
    by (simp add: placeholder_meta_def)
  have c2: "fst (map_aggregate (VTuple [VProxy 0])
            (\<lambda>v u. (proxys_to_metas (snd (Tracer_create_proxy ''call_module''
               (TStr ''linear'') [VProxy 0] [] None None tracing)) v, u)) ())
          = Inr (VTuple [VTensor [2, 3]])"
    by (simp add: x)
  have d2: "fst (map_aggregate (VDict (force_meta_device (TStr ''linear'') ?fns []))
            (\<lambda>v u. (proxys_to_metas (snd (Tracer_create_proxy ''call_module''
               (TStr ''linear'') [VProxy 0] [] None None tracing)) v, u)) ())
          = Inr (VDict [])"
    by (simp add: k)
  have e2: "replay meta_env (snd (Tracer_create_proxy ''call_module''
               (TStr ''linear'') [VProxy 0] [] None None tracing))
             ''call_module'' (TStr ''linear'')
             (elems_of (VTuple [VTensor [2, 3]])) (items_of (VDict []))
          = Inl (AssertionError [])"
    by (simp add: replay_def Tracer_create_proxy_eq tracing_def)
  show ?thesis
    using create_proxy_replay_exception [OF a b1 c1 d1 e1]
          create_proxy_replay_exception [OF a b2 c2 d2 e2]
    by (simp add: l w)
qed

section \<open>The scan of the constructor wrapper\<close>



section \<open>The shortcuts \<open>size\<close> and \<open>dim\<close>\<close>

text \<open>With metadata installed (and not \<open>None\<close>), \<open>size\<close> asks the metadata and leaves the
  state as it is: for the whole size when \<open>dim\<close> is \<open>None\<close>, for the size of dimension
  \<open>d\<close> when \<open>dim\<close> is an integer \<open>d\<close> other than zero.  Without metadata, \<open>size\<close> with
  such a \<open>d\<close> asks the tracer for a \<open>call_method\<close> node that carries \<open>d\<close>.\<close>

lemma size_with_meta:
  assumes "tensor_meta_of st self = Some tm" and "tm \<noteq> VNone"
  shows "MetaProxy_size env self None st = (call_meth env tm ''size'' [] [], st)"
    and "d \<noteq> 0 \<Longrightarrow>
         MetaProxy_size env self (Some d) st = (call_meth env tm ''size'' [VInt d] [], st)"
  using assms by (simp_all add: MetaProxy_size_def truthy_def dim_val_def)

lemma size_without_meta:
  assumes "tensor_meta_of st self = None" and "d \<noteq> 0"
  shows "MetaProxy_size env self (Some d) st =
           MetaTracer_create_proxy env ''call_method'' (TStr ''size'')
             [VProxy self, VInt d] [] None None st"
  using assms by (simp add: MetaProxy_size_def truthy_def dim_val_def)

text \<open>
  Claim C6 fails at \<open>dim = 0\<close>, where \<open>if dim\<close> takes the branch of a missing argument.
  The proxy \<open>0\<close> of \<open>tracing\<close> carries the metadata of a tensor of shape \<open>[2, 3]\<close>, whose
  \<open>size(0)\<close> is \<open>2\<close>; \<open>MetaProxy.size\<close> with \<open>dim = 0\<close> returns the whole size
  \<open>[2, 3]\<close>.  The proxy \<open>1\<close> carries no metadata; for it \<open>MetaProxy.size\<close> with
  \<open>dim = 0\<close> creates a \<open>call_method\<close> node whose arguments are the proxy alone.
\<close>

theorem size_dim_zero_takes_no_argument:
  "call_meth meta_env (VTensor [2, 3]) ''size'' [VInt 0] [] = Inr (VInt 2)
   \<and> MetaProxy_size meta_env 0 (Some 0) tracing = (Inr (VSize [2, 3]), tracing)
   \<and> n_args (last (graph (snd (MetaProxy_size meta_env 1 (Some 0) tracing)))) = [VProxy 1]"
  by (simp add: MetaProxy_size_def truthy_def dim_val_def tensor_meta_of_def get_proxy_def
      create_proxy_graph meta_env_def tensor_method_def tracing_def)

section \<open>Metadata \<open>None\<close>\<close>

lemma tensor_meta_of_install_None:
  "tensor_meta_of (install_tensor_meta p VNone st) p = None
   \<or> tensor_meta_of (install_tensor_meta p VNone st) p = Some VNone"
  by (simp add: tensor_meta_of_def install_tensor_meta_def get_proxy_def)

text \<open>
  Claim C10.  After \<open>install_tensor_meta(None)\<close>, as for a proxy without the attribute
  \<open>_tensor_meta\<close>, \<open>size\<close> and \<open>dim\<close> do not take the shortcut: each is the tracer's
  \<open>create_proxy\<close> for a \<open>call_method\<close> node, and the graph has one more node, that
  \<open>call_method\<close> node.
\<close>

theorem size_dim_fall_back_on_None:
  assumes "st' = install_tensor_meta p VNone st \<or> tensor_meta_of st' p = None"
  shows "MetaProxy_size env p d st' =
           MetaTracer_create_proxy env ''call_method'' (TStr ''size'')
             (if truthy d then [VProxy p, dim_val d] else [VProxy p]) [] None None st'
       \<and> MetaProxy_dim env p st' =
           MetaTracer_create_proxy env ''call_method'' (TStr ''dim'') [VProxy p] [] None None st'
       \<and> graph (snd (MetaProxy_size env p d st')) =
           graph st' @ [\<lparr>n_kind = ''call_method'', n_target = TStr ''size'',
                          n_args = (if truthy d then [VProxy p, dim_val d] else [VProxy p]),
                          n_kwargs = [], n_name = None, n_type_expr = None\<rparr>]
       \<and> graph (snd (MetaProxy_dim env p st')) =
           graph st' @ [\<lparr>n_kind = ''call_method'', n_target = TStr ''dim'',
                          n_args = [VProxy p], n_kwargs = [], n_name = None,
                          n_type_expr = None\<rparr>]"
proof -
  have m: "tensor_meta_of st' p = None \<or> tensor_meta_of st' p = Some VNone"
    using assms tensor_meta_of_install_None [of p st] by auto
  then have s: "MetaProxy_size env p d st' =
           MetaTracer_create_proxy env ''call_method'' (TStr ''size'')
             (if truthy d then [VProxy p, dim_val d] else [VProxy p]) [] None None st'"
    unfolding MetaProxy_size_def by auto
  from m have d: "MetaProxy_dim env p st' =
           MetaTracer_create_proxy env ''call_method'' (TStr ''dim'') [VProxy p] [] None None st'"
    unfolding MetaProxy_dim_def by auto
  show ?thesis unfolding s d by (simp add: create_proxy_graph)
qed

theorem size_dim_fall_back_on_None_witness:
  "n_kind (last (graph (snd (MetaProxy_size meta_env 0 None (install_tensor_meta 0 VNone tracing)))))
     = ''call_method''
   \<and> n_kind (last (graph (snd (MetaProxy_dim meta_env 0 (install_tensor_meta 0 VNone tracing)))))
     = ''call_method''
   \<and> n_kind (last (graph (snd (MetaProxy_size meta_env 1 None tracing)))) = ''call_method''
   \<and> n_kind (last (graph (snd (MetaProxy_dim meta_env 1 tracing)))) = ''call_method''"
proof -
  have a: "install_tensor_meta 0 VNone tracing = install_tensor_meta 0 VNone tracing
           \<or> tensor_meta_of (install_tensor_meta 0 VNone tracing) 0 = None"
    by simp
  have b: "tracing = install_tensor_meta 1 VNone tracing \<or> tensor_meta_of tracing 1 = None"
    by (simp add: tensor_meta_of_def get_proxy_def tracing_def)
  show ?thesis
    using size_dim_fall_back_on_None [OF a, of meta_env None]
          size_dim_fall_back_on_None [OF b, of meta_env None]
    by (simp add: truthy_def create_proxy_graph)
qed

section \<open>The lazy attribute proxy\<close>

lemma create_proxy_try_proxies:
  "proxies (snd (create_proxy_try env kind target args kwargs (VProxy r) st)) = proxies st
   \<or> (\<exists>tm. proxies (snd (create_proxy_try env kind target args kwargs (VProxy r) st))
          = proxies (install_tensor_meta r tm st))"
  by (auto simp: create_proxy_try_def split: sum.splits option.splits)

lemma create_proxy_except_proxies:
  "proxies (snd (create_proxy_except target rv outcome)) = proxies (snd outcome)"
  by (cases outcome) (auto simp: create_proxy_except_def split: sum.splits exn.splits)

lemma create_proxy_except_fst:
  "fst (create_proxy_except target rv outcome) = Inr v \<Longrightarrow> v = rv"
  by (cases outcome) (auto simp: create_proxy_except_def split: sum.splits exn.splits)

lemma install_on_new_proxy:
  "proxies (install_tensor_meta (length ps) tm (st\<lparr>graph := g, proxies := ps @ [q]\<rparr>))
     = ps @ [q\<lparr>p_tensor_meta := Some tm\<rparr>]"
  by (simp add: install_tensor_meta_def)

lemma create_proxy_proxies:
  "\<exists>tmo. proxies (snd (MetaTracer_create_proxy env kind target args kwargs nm ty st)) =
     proxies st @ [\<lparr>p_class = MetaProxy, p_node = Some (length (graph st)),
                     p_tensor_meta = tmo, p_root = 0, p_attr = []\<rparr>]"
proof -
  let ?q = "\<lparr>p_class = MetaProxy, p_node = Some (length (graph st)),
              p_tensor_meta = None, p_root = 0, p_attr = []\<rparr>"
  let ?st1 = "st\<lparr>graph := graph st @
            [\<lparr>n_kind = kind, n_target = target, n_args = args, n_kwargs = kwargs,
              n_name = nm, n_type_expr = ty\<rparr>],
         proxies := proxies st @ [?q]\<rparr>"
  have r: "\<exists>tmo. proxies (snd (create_proxy_replay env kind target args kwargs
                (VProxy (length (proxies st))) ?st1)) =
     proxies st @ [?q\<lparr>p_tensor_meta := tmo\<rparr>]"
  proof (cases "orig_fns ?st1")
    case None
    then show ?thesis by (auto simp: create_proxy_replay_def intro: exI [of _ None])
  next
    case (Some fns)
    from create_proxy_try_proxies [of env kind target args "force_meta_device target fns kwargs"
        "length (proxies st)" ?st1]
    show ?thesis
    proof
      assume "proxies (snd (create_proxy_try env kind target args
          (force_meta_device target fns kwargs) (VProxy (length (proxies st))) ?st1)) = proxies ?st1"
      with Some show ?thesis
        by (auto simp: create_proxy_replay_def create_proxy_except_proxies intro: exI [of _ None])
    next
      assume "\<exists>tm. proxies (snd (create_proxy_try env kind target args
          (force_meta_device target fns kwargs) (VProxy (length (proxies st))) ?st1))
          = proxies (install_tensor_meta (length (proxies st)) tm ?st1)"
      then obtain tm where "proxies (snd (create_proxy_try env kind target args
          (force_meta_device target fns kwargs) (VProxy (length (proxies st))) ?st1))
          = proxies st @ [?q\<lparr>p_tensor_meta := Some tm\<rparr>]"
        by (auto simp: install_on_new_proxy)
      with Some show ?thesis
        by (auto simp: create_proxy_replay_def create_proxy_except_proxies)
    qed
  qed
  show ?thesis
  proof (cases "placeholder_meta ?st1 kind target")
    case (Inl e)
    then show ?thesis
      unfolding MetaTracer_create_proxy_def Tracer_create_proxy_eq by (auto intro: exI [of _ None])
  next
    case (Inr found)
    show ?thesis
    proof (cases found)
      case None
      with Inr r show ?thesis
        unfolding MetaTracer_create_proxy_def Tracer_create_proxy_eq by auto
    next
      case (Some tm)
      with Inr show ?thesis
        unfolding MetaTracer_create_proxy_def Tracer_create_proxy_eq
        by (auto simp: install_on_new_proxy)
    qed
  qed
qed

lemma create_proxy_returns_new_proxy:
  "fst (MetaTracer_create_proxy env kind target args kwargs nm ty st) = Inr rv \<Longrightarrow>
     rv = VProxy (length (proxies st))"
  unfolding MetaTracer_create_proxy_def Tracer_create_proxy_eq
  by (auto simp: create_proxy_replay_def dest: create_proxy_except_fst
      split: sum.splits option.splits)

lemma create_proxy_keeps_proxies:
  assumes "r < length (proxies st)"
  shows "get_proxy (snd (MetaTracer_create_proxy env kind target args kwargs nm ty st)) r
           = get_proxy st r"
  using create_proxy_proxies [of env kind target args kwargs nm ty st] assms
  by (auto simp: get_proxy_def nth_append)

lemma create_proxy_node_of_result:
  "node_of (snd (MetaTracer_create_proxy env kind target args kwargs nm ty st))
     (VProxy (length (proxies st))) = Some (length (graph st))"
  using create_proxy_proxies [of env kind target args kwargs nm ty st]
  by (auto simp: node_of_def get_proxy_def)


lemma node_cached:
  assumes "get_proxy st a = Some p" and "p_node p = Some n"
  shows "MetaAttribute_node env a st = (Inr n, st)"
  using assms by (simp add: MetaAttribute_node_def)

text \<open>
  Claim C8.  Let \<open>a\<close> be a \<open>MetaAttribute\<close> whose \<open>_node\<close> is still \<open>None\<close>.
  Calling it is the tracer's \<open>create_proxy\<close> for \<open>call_method\<close>, the attribute name and
  the root before the arguments; the graph has one more node, that \<open>call_method\<close> node,
  and \<open>_node\<close> of \<open>a\<close> is still \<open>None\<close>, so no \<open>getattr\<close> node was made for it.
  When the first access to its \<open>node\<close> returns \<open>n\<close>, the graph has one more node,
  \<open>call_function(getattr, (root, attr), {})\<close>, \<open>n\<close> is that node, and the next access
  returns \<open>n\<close> again and changes nothing.
\<close>

theorem MetaAttribute_lazy_node:
  assumes "get_proxy st a = Some p" and "p_node p = None"
  shows "MetaAttribute_call env a args kwargs st =
           MetaTracer_create_proxy env ''call_method'' (TStr (p_attr p))
             (VProxy (p_root p) # args) kwargs None None st
       \<and> graph (snd (MetaAttribute_call env a args kwargs st)) =
           graph st @ [\<lparr>n_kind = ''call_method'', n_target = TStr (p_attr p),
                         n_args = VProxy (p_root p) # args, n_kwargs = kwargs,
                         n_name = None, n_type_expr = None\<rparr>]
       \<and> node_of (snd (MetaAttribute_call env a args kwargs st)) (VProxy a) = None
       \<and> (\<forall>n st1. MetaAttribute_node env a st = (Inr n, st1) \<longrightarrow>
             graph st1 =
               graph st @ [\<lparr>n_kind = ''call_function'', n_target = TFn (Fn ''getattr''),
                             n_args = [VProxy (p_root p), VStr (p_attr p)], n_kwargs = [],
                             n_name = None, n_type_expr = None\<rparr>]
             \<and> n = length (graph st)
             \<and> (\<forall>env'. MetaAttribute_node env' a st1 = (Inr n, st1)))"
proof -
  from assms(1) have valid: "a < length (proxies st)"
    by (simp add: get_proxy_def split: if_splits)
  have call: "MetaAttribute_call env a args kwargs st =
           MetaTracer_create_proxy env ''call_method'' (TStr (p_attr p))
             (VProxy (p_root p) # args) kwargs None None st"
    using assms(1) by (simp add: MetaAttribute_call_def)
  have still: "node_of (snd (MetaAttribute_call env a args kwargs st)) (VProxy a) = None"
    unfolding call using assms valid
    by (simp add: node_of_def create_proxy_keeps_proxies)
  have node: "graph st1 =
               graph st @ [\<lparr>n_kind = ''call_function'', n_target = TFn (Fn ''getattr''),
                             n_args = [VProxy (p_root p), VStr (p_attr p)], n_kwargs = [],
                             n_name = None, n_type_expr = None\<rparr>]
             \<and> n = length (graph st)
             \<and> (\<forall>env'. MetaAttribute_node env' a st1 = (Inr n, st1))"
    if first: "MetaAttribute_node env a st = (Inr n, st1)" for n st1
  proof -
    let ?cp = "MetaTracer_create_proxy env ''call_function'' (TFn (Fn ''getattr''))
                 [VProxy (p_root p), VStr (p_attr p)] [] None None st"
    obtain res st2 where cp: "?cp = (res, st2)" by (cases ?cp)
    from first assms cp obtain rv where res: "res = Inr rv"
      by (cases res) (auto simp: MetaAttribute_node_def)
    from cp res have rv: "rv = VProxy (length (proxies st))"
      using create_proxy_returns_new_proxy [of env "''call_function''" "TFn (Fn ''getattr'')"
          "[VProxy (p_root p), VStr (p_attr p)]" "[]" None None st rv]
      by simp
    have nd: "node_of st2 rv = Some (length (graph st))"
      using create_proxy_node_of_result [of env "''call_function''" "TFn (Fn ''getattr'')"
          "[VProxy (p_root p), VStr (p_attr p)]" "[]" None None st] cp rv
      by simp
    from first assms cp res nd have n: "n = length (graph st)"
      and st1: "st1 = set_node a (length (graph st)) st2"
      by (auto simp: MetaAttribute_node_def)
    have g2: "graph st2 =
               graph st @ [\<lparr>n_kind = ''call_function'', n_target = TFn (Fn ''getattr''),
                             n_args = [VProxy (p_root p), VStr (p_attr p)], n_kwargs = [],
                             n_name = None, n_type_expr = None\<rparr>]"
      using create_proxy_graph [of env "''call_function''" "TFn (Fn ''getattr'')"
          "[VProxy (p_root p), VStr (p_attr p)]" "[]" None None st] cp
      by simp
    have len2: "a < length (proxies st2)"
      using create_proxy_proxies [of env "''call_function''" "TFn (Fn ''getattr'')"
          "[VProxy (p_root p), VStr (p_attr p)]" "[]" None None st] cp valid
      by auto
    have g1: "graph st1 = graph st2" unfolding st1 by (simp add: set_node_def)
    have cached: "get_proxy st1 a = Some ((proxies st2 ! a)\<lparr>p_node := Some (length (graph st))\<rparr>)"
      unfolding st1 using len2 by (simp add: set_node_def get_proxy_def)
    have again: "MetaAttribute_node env' a st1 = (Inr n, st1)" for env'
      using node_cached [OF cached, of "length (graph st)" env'] n by simp
    from g1 g2 n again show ?thesis by simp
  qed
  from node have node': "\<forall>n st1. MetaAttribute_node env a st = (Inr n, st1) \<longrightarrow>
             graph st1 =
               graph st @ [\<lparr>n_kind = ''call_function'', n_target = TFn (Fn ''getattr''),
                             n_args = [VProxy (p_root p), VStr (p_attr p)], n_kwargs = [],
                             n_name = None, n_type_expr = None\<rparr>]
             \<and> n = length (graph st)
             \<and> (\<forall>env'. MetaAttribute_node env' a st1 = (Inr n, st1))"
    by blast
  have g: "graph (snd (MetaAttribute_call env a args kwargs st)) =
           graph st @ [\<lparr>n_kind = ''call_method'', n_target = TStr (p_attr p),
                         n_args = VProxy (p_root p) # args, n_kwargs = kwargs,
                         n_name = None, n_type_expr = None\<rparr>]"
    unfolding call by (simp add: create_proxy_graph)
  show ?thesis by (intro conjI call g still node')
qed


theorem MetaAttribute_lazy_node_witness:
  "fst (MetaAttribute_node meta_env 3 tracing_attrs) = Inr 2
   \<and> MetaAttribute_node meta_env 3 (snd (MetaAttribute_node meta_env 3 tracing_attrs))
       = (Inr 2, snd (MetaAttribute_node meta_env 3 tracing_attrs))
   \<and> graph (snd (MetaAttribute_call meta_env 4 [VInt 6] [] tracing_attrs))
       = graph tracing_attrs @
           [\<lparr>n_kind = ''call_method'', n_target = TStr ''view'', n_args = [VProxy 0, VInt 6],
             n_kwargs = [], n_name = None, n_type_expr = None\<rparr>]
   \<and> node_of (snd (MetaAttribute_call meta_env 4 [VInt 6] [] tracing_attrs)) (VProxy 4) = None"
proof -
  let ?shape = "\<lparr>p_class = MetaAttribute, p_node = None, p_tensor_meta = None,
                  p_root = 0, p_attr = ''shape''\<rparr>"
  let ?view = "\<lparr>p_class = MetaAttribute, p_node = None, p_tensor_meta = None,
                 p_root = 0, p_attr = ''view''\<rparr>"
  have p3: "get_proxy tracing_attrs 3 = Some ?shape"
    by (simp add: tracing_attrs_def MetaAttribute_init_def get_proxy_def tracing_def nth_append)
  have p4: "get_proxy tracing_attrs 4 = Some ?view"
    by (simp add: tracing_attrs_def MetaAttribute_init_def get_proxy_def tracing_def nth_append)
  have l: "length (proxies tracing_attrs) = 5"
    by (simp add: tracing_attrs_def MetaAttribute_init_def tracing_def)
  have g: "length (graph tracing_attrs) = 2"
    by (simp add: tracing_attrs_def MetaAttribute_init_def tracing_def)
  have "fst (MetaTracer_create_proxy meta_env ''call_function'' (TFn (Fn ''getattr''))
               [VProxy 0, VStr ''shape''] [] None None tracing_attrs) = Inr (VProxy 5)"
    by (simp add: MetaTracer_create_proxy_def Tracer_create_proxy_eq placeholder_meta_def
      create_proxy_replay_def create_proxy_except_def create_proxy_try_def
      force_meta_device_def in_orig_fns_def replay_def proxys_to_metas_def
      isinstance_MetaProxy_def tensor_meta_of_def get_proxy_def elems_of_def items_of_def
      meta_env_def tensor_function_def tracing_attrs_def MetaAttribute_init_def tracing_def
      nth_append)
  moreover obtain res st2 where cp: "MetaTracer_create_proxy meta_env ''call_function''
      (TFn (Fn ''getattr'')) [VProxy 0, VStr ''shape''] [] None None tracing_attrs = (res, st2)"
    by (cases "MetaTracer_create_proxy meta_env ''call_function''
      (TFn (Fn ''getattr'')) [VProxy 0, VStr ''shape''] [] None None tracing_attrs")
  ultimately have f: "fst (MetaAttribute_node meta_env 3 tracing_attrs) = Inr 2"
    using create_proxy_node_of_result [of meta_env "''call_function''" "TFn (Fn ''getattr'')"
             "[VProxy 0, VStr ''shape'']" "[]" None None tracing_attrs]
    by (simp add: MetaAttribute_node_def p3 g l)
  then have h: "MetaAttribute_node meta_env 3 tracing_attrs
      = (Inr 2, snd (MetaAttribute_node meta_env 3 tracing_attrs))"
    by (simp add: prod_eq_iff)
  have n3: "p_node ?shape = None" and n4: "p_node ?view = None" by simp_all
  note t3 = MetaAttribute_lazy_node [OF p3 n3, of meta_env "[]" "[]"]
  note t4 = MetaAttribute_lazy_node [OF p4 n4, of meta_env "[VInt 6]" "[]"]
  from t3 [THEN conjunct2, THEN conjunct2, THEN conjunct2, rule_format, OF h,
           THEN conjunct2, THEN conjunct2, rule_format, of meta_env]
  have again: "MetaAttribute_node meta_env 3 (snd (MetaAttribute_node meta_env 3 tracing_attrs))
       = (Inr 2, snd (MetaAttribute_node meta_env 3 tracing_attrs))" .
  from t4 [THEN conjunct2, THEN conjunct1]
  have c: "graph (snd (MetaAttribute_call meta_env 4 [VInt 6] [] tracing_attrs))
       = graph tracing_attrs @
           [\<lparr>n_kind = ''call_method'', n_target = TStr ''view'', n_args = [VProxy 0, VInt 6],
             n_kwargs = [], n_name = None, n_type_expr = None\<rparr>]"
    by simp
  from t4 [THEN conjunct2, THEN conjunct2, THEN conjunct1]
  have d: "node_of (snd (MetaAttribute_call meta_env 4 [VInt 6] [] tracing_attrs)) (VProxy 4) = None" .
  show ?thesis by (intro conjI f again c d)
qed

section \<open>Modules that the underlying tracer cannot resolve\<close>

text \<open>The loop ends with the first path \<open>mod_name_k\<close> that is not an attribute of the
  root: started as \<open>_insert_module_as_submodule\<close> starts it, it tests \<open>mod_name_0\<close>
  twice and then every suffix once.\<close>

lemma insert_module_loop_first_free:
  assumes "path = make_path mod_name j" and "idx \<le> j + 1"
    and "\<forall>i<j. hasattr_root rt (make_path mod_name i)"
  shows "\<exists>k. insert_module_loop rt mod_name path idx = make_path mod_name k
             \<and> \<not> hasattr_root rt (make_path mod_name k)
             \<and> (\<forall>i<k. hasattr_root rt (make_path mod_name i))"
  using assms
proof (induction rt mod_name path idx arbitrary: j rule: insert_module_loop.induct)
  case (1 rt mod_name path idx)
  show ?case
  proof (cases "hasattr_root rt path")
    case False
    with "1.prems" show ?thesis
      by (subst insert_module_loop.simps) auto
  next
    case True
    have "\<forall>i<idx. hasattr_root rt (make_path mod_name i)"
    proof (intro allI impI)
      fix i assume "i < idx"
      with "1.prems"(2) have "i < j \<or> i = j" by arith
      with "1.prems"(1,3) True show "hasattr_root rt (make_path mod_name i)" by auto
    qed
    from "1.IH" [OF True refl _ this]
    obtain k where "insert_module_loop rt mod_name (make_path mod_name idx) (idx + 1)
          = make_path mod_name k"
      and "\<not> hasattr_root rt (make_path mod_name k)"
      and "\<forall>i<k. hasattr_root rt (make_path mod_name i)"
      by auto
    with True show ?thesis
      by (subst insert_module_loop.simps) auto
  qed
qed

lemma insert_module_as_submodule_fresh:
  "\<exists>k. insert_module_as_submodule m st =
          (make_path (lower (m_class_name m)) k,
           st\<lparr>root := add_module (make_path (lower (m_class_name m)) k) m (root st)\<rparr>)
       \<and> \<not> hasattr_root (root st) (make_path (lower (m_class_name m)) k)
       \<and> (\<forall>i<k. hasattr_root (root st) (make_path (lower (m_class_name m)) i))"
proof -
  from insert_module_loop_first_free [of "make_path (lower (m_class_name m)) 0"
      "lower (m_class_name m)" 0 0 "root st"]
  obtain k where "insert_module_loop (root st) (lower (m_class_name m))
        (make_path (lower (m_class_name m)) 0) 0 = make_path (lower (m_class_name m)) k"
    and "\<not> hasattr_root (root st) (make_path (lower (m_class_name m)) k)"
    and "\<forall>i<k. hasattr_root (root st) (make_path (lower (m_class_name m)) i)"
    by auto
  then show ?thesis
    by (auto simp: insert_module_as_submodule_def Let_def)
qed

text \<open>
  Claim C7.  Let the underlying \<open>path_of_module\<close> fail with a \<open>NameError\<close>.  If
  \<open>allow_insert_stateless_mods\<close> holds and the module has no parameters and no buffers,
  \<open>path_of_module\<close> returns a path made of the lower-case class name, an underscore and a
  number; this path was no attribute of the root; in the new state it is the module's name
  among the children of the root (the other children and attributes are as before) and the
  value of \<open>prev_module\<close>.  Otherwise \<open>path_of_module\<close> raises the same \<open>NameError\<close>
  and the state is as before.
\<close>

theorem path_of_module_unresolved:
  assumes "base_path_of_module env m st = Inl (NameError msg)"
  shows "(allow_insert_stateless_mods st \<and> m_parameters m = [] \<and> m_buffers m = [] \<longrightarrow>
            (\<exists>k. MetaTracer_path_of_module env m st =
                    (Inr (make_path (lower (m_class_name m)) k),
                     st\<lparr>root := add_module (make_path (lower (m_class_name m)) k) m (root st),
                        prev_module := Some (make_path (lower (m_class_name m)) k)\<rparr>)
                \<and> \<not> hasattr_root (root st) (make_path (lower (m_class_name m)) k)
                \<and> map_of (r_modules (root (snd (MetaTracer_path_of_module env m st))))
                    = (map_of (r_modules (root st)))(make_path (lower (m_class_name m)) k \<mapsto> m)
                \<and> r_attrs (root (snd (MetaTracer_path_of_module env m st))) = r_attrs (root st)))
       \<and> (\<not> (allow_insert_stateless_mods st \<and> m_parameters m = [] \<and> m_buffers m = []) \<longrightarrow>
            MetaTracer_path_of_module env m st = (Inl (NameError msg), st))"
proof (intro conjI impI)
  assume ok: "allow_insert_stateless_mods st \<and> m_parameters m = [] \<and> m_buffers m = []"
  from insert_module_as_submodule_fresh [of m st]
  obtain k where ins: "insert_module_as_submodule m st =
          (make_path (lower (m_class_name m)) k,
           st\<lparr>root := add_module (make_path (lower (m_class_name m)) k) m (root st)\<rparr>)"
    and fresh: "\<not> hasattr_root (root st) (make_path (lower (m_class_name m)) k)"
    by blast
  have eq: "MetaTracer_path_of_module env m st =
      (Inr (make_path (lower (m_class_name m)) k),
       st\<lparr>root := add_module (make_path (lower (m_class_name m)) k) m (root st),
          prev_module := Some (make_path (lower (m_class_name m)) k)\<rparr>)"
    using assms ok by (simp add: MetaTracer_path_of_module_def ins)
  show "\<exists>k. MetaTracer_path_of_module env m st =
                    (Inr (make_path (lower (m_class_name m)) k),
                     st\<lparr>root := add_module (make_path (lower (m_class_name m)) k) m (root st),
                        prev_module := Some (make_path (lower (m_class_name m)) k)\<rparr>)
                \<and> \<not> hasattr_root (root st) (make_path (lower (m_class_name m)) k)
                \<and> map_of (r_modules (root (snd (MetaTracer_path_of_module env m st))))
                    = (map_of (r_modules (root st)))(make_path (lower (m_class_name m)) k \<mapsto> m)
                \<and> r_attrs (root (snd (MetaTracer_path_of_module env m st))) = r_attrs (root st)"
    by (rule exI [of _ k]) (simp add: eq fresh add_module_def update_conv')
next
  assume "\<not> (allow_insert_stateless_mods st \<and> m_parameters m = [] \<and> m_buffers m = [])"
  with assms show "MetaTracer_path_of_module env m st = (Inl (NameError msg), st)"
    by (auto simp: MetaTracer_path_of_module_def)
qed


theorem path_of_module_unresolved_witness:
  "fst (MetaTracer_path_of_module meta_env relu_mod tracing_root) = Inr ''relu_2''
   \<and> \<not> hasattr_root (root tracing_root) ''relu_2''
   \<and> map_of (r_modules (root (snd (MetaTracer_path_of_module meta_env relu_mod tracing_root))))
        ''relu_2'' = Some relu_mod
   \<and> MetaTracer_path_of_module meta_env conv_mod tracing_root
       = (Inl (NameError ''module is not installed as a submodule''), tracing_root)"
proof -
  have b: "base_path_of_module meta_env relu_mod tracing_root
      = Inl (NameError ''module is not installed as a submodule'')"
    by (simp add: meta_env_def relu_mod_def tracing_root_def)
  have c: "base_path_of_module meta_env conv_mod tracing_root
      = Inl (NameError ''module is not installed as a submodule'')"
    by (simp add: meta_env_def conv_mod_def tracing_root_def)
  have ok: "allow_insert_stateless_mods tracing_root \<and> m_parameters relu_mod = []
      \<and> m_buffers relu_mod = []"
    by (simp add: tracing_root_def tracing_def relu_mod_def)
  have no: "\<not> (allow_insert_stateless_mods tracing_root \<and> m_parameters conv_mod = []
      \<and> m_buffers conv_mod = [])"
    by (simp add: conv_mod_def)
  have p0: "make_path ''relu'' 0 = ''relu_0''"
    and p1: "make_path ''relu'' (Suc 0) = ''relu_1''"
    and p2: "make_path ''relu'' (Suc (Suc 0)) = ''relu_2''"
    by (simp_all add: make_path_def str_of_nat.simps digit_char_def)
  have lw: "lower (m_class_name relu_mod) = ''relu''"
    by (simp add: relu_mod_def lower_def lower_char_def)
  have h: "hasattr_root (root tracing_root) ''relu_0''" "hasattr_root (root tracing_root) ''relu_1''"
    "\<not> hasattr_root (root tracing_root) ''relu_2''"
    by (simp_all add: hasattr_root_def tracing_root_def)
  have l3: "insert_module_loop (root tracing_root) ''relu'' ''relu_2'' i = ''relu_2''" for i
    by (subst insert_module_loop.simps) (simp add: h)
  have l2: "insert_module_loop (root tracing_root) ''relu'' ''relu_1'' (Suc (Suc 0)) = ''relu_2''"
    by (subst insert_module_loop.simps) (simp add: h p2 l3)
  have l1: "insert_module_loop (root tracing_root) ''relu'' ''relu_0'' (Suc 0) = ''relu_2''"
    by (subst insert_module_loop.simps) (simp add: h p1 l2)
  have loop: "insert_module_loop (root tracing_root) ''relu'' ''relu_0'' 0 = ''relu_2''"
    by (subst insert_module_loop.simps) (simp add: h p0 l1)
  have f: "fst (MetaTracer_path_of_module meta_env relu_mod tracing_root) = Inr ''relu_2''"
    using b ok by (simp add: MetaTracer_path_of_module_def insert_module_as_submodule_def
        Let_def lw p0 loop)
  from path_of_module_unresolved [OF b, THEN conjunct1, rule_format, OF ok]
  obtain k where e: "MetaTracer_path_of_module meta_env relu_mod tracing_root =
                    (Inr (make_path (lower (m_class_name relu_mod)) k),
                     tracing_root\<lparr>root := add_module (make_path (lower (m_class_name relu_mod)) k)
                          relu_mod (root tracing_root),
                        prev_module := Some (make_path (lower (m_class_name relu_mod)) k)\<rparr>)"
    and fr: "\<not> hasattr_root (root tracing_root) (make_path (lower (m_class_name relu_mod)) k)"
    and mp: "map_of (r_modules (root (snd (MetaTracer_path_of_module meta_env relu_mod tracing_root))))
              = (map_of (r_modules (root tracing_root)))
                  (make_path (lower (m_class_name relu_mod)) k \<mapsto> relu_mod)"
    by blast
  from e f have k: "make_path (lower (m_class_name relu_mod)) k = ''relu_2''" by simp
  from fr k have 2: "\<not> hasattr_root (root tracing_root) ''relu_2''" by simp
  from mp k have 3: "map_of (r_modules (root (snd (MetaTracer_path_of_module meta_env relu_mod
        tracing_root)))) ''relu_2'' = Some relu_mod"
    by simp
  from path_of_module_unresolved [OF c, THEN conjunct2, rule_format, OF no]
  have 4: "MetaTracer_path_of_module meta_env conv_mod tracing_root
       = (Inl (NameError ''module is not installed as a submodule''), tracing_root)" .
  show ?thesis by (intro conjI f 2 3 4)
qed

section \<open>Restoring the patched constructors\<close>

lemma gen_patches_origs:
  "gen_patches t targets = Inr ps \<Longrightarrow>
     map fst ps = targets \<and> (\<forall>(name, wrapper_fn, orig) \<in> set ps. t name = Some orig)"
  by (induction targets arbitrary: ps)
     (auto simp: gen_constructor_wrapper_def split: option.splits sum.splits)

lemma restore_patches_torch:
  "(\<forall>(name, wrapper_fn, orig) \<in> set ps. t name = Some orig) \<Longrightarrow>
     torch (restore_patches ps st) n = (if n \<in> fst ` set ps then t n else torch st n)"
  by (induction ps st rule: restore_patches.induct) (auto split: if_splits)

lemma install_patches_registry:
  "patched_torch_methods (install_patches ps st) = patched_torch_methods st"
  by (induction ps st rule: install_patches.induct) simp_all

text \<open>
  Claim C4.  Let the underlying trace leave the tracer's field \<open>patched_torch_methods\<close>
  as it is (nothing but \<open>MetaTracer.trace\<close> assigns it).  Then after
  \<open>MetaTracer.trace\<close>, whether it returns or raises and whatever the underlying trace did
  to \<open>torch\<close>, each of \<open>arange\<close>, \<open>zeros\<close>, \<open>ones\<close>, \<open>full_like\<close> and \<open>eye\<close> is bound
  in \<open>torch\<close> to the function it was bound to before the call.
\<close>

theorem trace_restores_constructors:
  assumes "\<forall>rt c s. patched_torch_methods (snd (base_trace env rt c s)) = patched_torch_methods s"
  shows "\<forall>name \<in> set TORCH_METHODS_TO_PATCH.
           torch (snd (MetaTracer_trace env rt meta_args_arg concrete_args st)) name
             = torch st name"
proof (cases "\<exists>m. meta_args_arg = VDict m")
  case False
  then have "MetaTracer_trace env rt meta_args_arg concrete_args st = (Inl (AssertionError []), st)"
    by (cases meta_args_arg) (simp_all add: MetaTracer_trace_def)
  then show ?thesis by simp
next
  case True
  then obtain m where m: "meta_args_arg = VDict m" ..
  show ?thesis
  proof (cases "gen_patches (torch st) TORCH_METHODS_TO_PATCH")
    case (Inl e)
    with m show ?thesis by (simp add: MetaTracer_trace_def)
  next
    case (Inr ps)
    let ?st4 = "install_patches ps
        (st\<lparr>meta_args := Some m, patched_torch_methods := Some ps, orig_fns := Some {}\<rparr>)"
    obtain res st5 where b: "base_trace env rt concrete_args ?st4 = (res, st5)"
      by (cases "base_trace env rt concrete_args ?st4")
    have "patched_torch_methods st5 = patched_torch_methods ?st4"
      using assms [rule_format, of rt concrete_args ?st4] b by simp
    then have reg: "patched_torch_methods st5 = Some ps"
      by (simp add: install_patches_registry)
    have tr: "MetaTracer_trace env rt meta_args_arg concrete_args st
        = (res, restore_patches ps st5)"
      using m Inr b reg by (simp add: MetaTracer_trace_def Let_def)
    from gen_patches_origs [OF Inr]
    have names: "map fst ps = TORCH_METHODS_TO_PATCH"
      and origs: "\<forall>(name, wrapper_fn, orig) \<in> set ps. torch st name = Some orig"
      by simp_all
    from names have "fst ` set ps = set TORCH_METHODS_TO_PATCH"
      by (metis set_map)
    then show ?thesis
      unfolding tr by (simp add: restore_patches_torch [OF origs])
  qed
qed

theorem trace_restores_constructors_witness:
  "fst (MetaTracer_trace meta_env (root before_trace) (VDict [(''x'', VTensor [2, 3])]) VNone
          before_trace) = Inl (OtherError ''RuntimeError'')
   \<and> torch (snd (MetaTracer_trace meta_env (root before_trace)
                   (VDict [(''x'', VTensor [2, 3])]) VNone before_trace)) ''arange''
       = Some (Fn ''arange'')
   \<and> fst (MetaTracer_trace rebinding_env (root before_trace) (VDict [(''x'', VTensor [2, 3])])
            VNone before_trace) = Inr VNone
   \<and> torch (snd (MetaTracer_trace rebinding_env (root before_trace)
                   (VDict [(''x'', VTensor [2, 3])]) VNone before_trace)) ''zeros''
       = Some (Fn ''zeros'')"
proof -
  have a: "\<forall>rt c s. patched_torch_methods (snd (base_trace meta_env rt c s))
      = patched_torch_methods s"
    by (simp add: meta_env_def)
  have b: "\<forall>rt c s. patched_torch_methods (snd (base_trace rebinding_env rt c s))
      = patched_torch_methods s"
    by (simp add: rebinding_env_def)
  have g: "gen_patches (torch before_trace) TORCH_METHODS_TO_PATCH =
      Inr [(''arange'', Wrapper (Fn ''arange''), Fn ''arange''),
           (''zeros'', Wrapper (Fn ''zeros''), Fn ''zeros''),
           (''ones'', Wrapper (Fn ''ones''), Fn ''ones''),
           (''full_like'', Wrapper (Fn ''full_like''), Fn ''full_like''),
           (''eye'', Wrapper (Fn ''eye''), Fn ''eye'')]"
    by (simp add: TORCH_METHODS_TO_PATCH_def before_trace_def gen_constructor_wrapper_def)
  have 1: "fst (MetaTracer_trace meta_env (root before_trace) (VDict [(''x'', VTensor [2, 3])])
      VNone before_trace) = Inl (OtherError ''RuntimeError'')"
    by (simp add: MetaTracer_trace_def g Let_def meta_env_def install_patches_registry)
  have 3: "fst (MetaTracer_trace rebinding_env (root before_trace)
      (VDict [(''x'', VTensor [2, 3])]) VNone before_trace) = Inr VNone"
    by (simp add: MetaTracer_trace_def g Let_def rebinding_env_def install_patches_registry)
  have t: "torch before_trace ''arange'' = Some (Fn ''arange'')"
    "torch before_trace ''zeros'' = Some (Fn ''zeros'')"
    by (simp_all add: before_trace_def)
  have n: "''arange'' \<in> set TORCH_METHODS_TO_PATCH" "''zeros'' \<in> set TORCH_METHODS_TO_PATCH"
    by (simp_all add: TORCH_METHODS_TO_PATCH_def)
  from trace_restores_constructors [OF a, THEN bspec, OF n(1), of "root before_trace"
      "VDict [(''x'', VTensor [2, 3])]" VNone before_trace] t(1)
  have 2: "torch (snd (MetaTracer_trace meta_env (root before_trace)
                   (VDict [(''x'', VTensor [2, 3])]) VNone before_trace)) ''arange''
       = Some (Fn ''arange'')"
    by simp
  from trace_restores_constructors [OF b, THEN bspec, OF n(2), of "root before_trace"
      "VDict [(''x'', VTensor [2, 3])]" VNone before_trace] t(2)
  have 4: "torch (snd (MetaTracer_trace rebinding_env (root before_trace)
                   (VDict [(''x'', VTensor [2, 3])]) VNone before_trace)) ''zeros''
       = Some (Fn ''zeros'')"
    by simp
  show ?thesis by (intro conjI 1 2 3 4)
qed

section \<open>The constructor wrapper\<close>









end
